theory Spec2Isabelle
  imports Main
begin

section \<open>Data model\<close>

text \<open>
  The reaction-role engine of \<^verbatim>\<open>botto/mixins/reaction_roles.py\<close>.
  Identifiers (users, messages, channels, guilds, roles, records) are natural numbers.
  Emoji are strings of UTF-8 bytes.
\<close>

type_synonym emoji = string

datatype RequestStatus = PENDING | APPROVED | REJECTED

text \<open>
  A stored message id is a Python value: a \<^verbatim>\<open>str\<close> of digits or an \<^verbatim>\<open>int\<close>.
  \<^verbatim>\<open>int(v)\<close> reads both; \<^verbatim>\<open>i != v\<close> for an int \<^verbatim>\<open>i\<close> is always true
  when \<^verbatim>\<open>v\<close> is a \<^verbatim>\<open>str\<close>.
\<close>

datatype py_id = PyStr nat | PyInt nat

fun py_int :: "py_id \<Rightarrow> nat" where
  "py_int (PyStr n) = n"
| "py_int (PyInt n) = n"

fun int_ne :: "nat \<Rightarrow> py_id \<Rightarrow> bool" where
  "int_ne i (PyInt n) = (i \<noteq> n)"
| "int_ne i (PyStr n) = True"

text \<open>
  An element of \<^verbatim>\<open>message.reactions\<close>: a \<^verbatim>\<open>discord.Reaction\<close> object, which holds
  the emoji. It is not a string.
\<close>

datatype Reaction = Reaction (reaction_emoji: emoji)

record Message =
  m_id :: nat
  m_channel :: nat
  m_author :: nat
  m_reactions :: "Reaction list"
  m_created_at :: int

record Member =
  mem_id :: nat
  mem_name :: string
  mem_roles :: "nat list"

record Tester =
  t_id :: "nat option"
  username :: string
  discord_id :: nat
  email :: "string option"
  registration_message_id :: "nat option"
  leave_message_ids :: "nat list"

record TestingRequest =
  r_id :: "nat option"
  tester :: "nat option"
  tester_discord_id :: nat
  app :: nat
  server_id :: nat
  approval_channel_id :: "nat option"
  status :: RequestStatus
  notification_message_id :: "py_id option"
  further_notification_message_ids :: "py_id list"
  removed :: bool
  app_reaction_roles_ids :: "nat list"

record App =
  app_id :: nat
  app_name :: string
  beta_open :: bool
  beta_group_id :: nat
  app_store_key_id :: nat

record ReactionRole =
  role_id :: nat
  app_ids :: "nat list"
  requires_rules_approval :: bool

record AscTester =
  asc_id :: nat
  beta_group_ids :: "nat list"

record payload =
  event_type :: string
  user_id :: nat
  message_id :: nat
  channel_id :: nat
  guild_id :: "nat option"
  emoji_name :: emoji
  member :: "Member option"

subsection \<open>Marker emoji\<close>

definition processing_emoji :: emoji where
  "processing_emoji = [CHR 0xE2, CHR 0x8F, CHR 0xB3]"

definition approved_primary :: emoji where
  "approved_primary = [CHR 0xE2, CHR 0x9C, CHR 0x85]"

definition approved_other :: emoji where
  "approved_other = [CHR 0xE2, CHR 0x9C, CHR 0x94, CHR 0xEF, CHR 0xB8, CHR 0x8F]"

definition rejected_primary :: emoji where
  "rejected_primary = [CHR 0xE2, CHR 0x9B, CHR 0x94]"

definition rejected_other :: emoji where
  "rejected_other = [CHR 0xF0, CHR 0x9F, CHR 0x9A, CHR 0xAB]"

definition door_emoji :: emoji where
  "door_emoji = [CHR 0xF0, CHR 0x9F, CHR 0x9A, CHR 0xAA]"

subsection \<open>Exceptions\<close>

datatype asc_error =
    ApiKeyNotSetError
  | BetaGroupNotSetError
  | InvalidAttributeError string
  | OtherAppStoreConnectError

datatype rr_message =
    CouldNotFindTester
  | FailedToFetchApp
  | FailedToAddRoles
  | FailedToSendNotification
  | FailedToMarkApprovedInAirtable
  | FailedToMarkApproved
  | FailedToMarkOtherApproved
  | FailedToMarkRejectedInAirtable
  | FailedToMarkRejected
  | FailedToMarkOtherRejected

datatype exn =
    AirTableError
  | ReactionRoleError rr_message nat "nat option"
  | AppStoreConnectError asc_error
  | DiscordException
  | ExceptionGroup
  | AttributeError
  | TypeError
  | IndexError
  | UnboundLocalError

subsection \<open>Outbound actions\<close>

datatype msg_text =
    NoRequestFoundForApproval
  | PreviouslyRejectedCannotApprove
  | NoRequestFoundForRejection
  | PreviouslyApprovedCannotReject
  | NoApiKeySet
  | NoBetaGroupSet
  | InvalidTesterAttribute string
  | FailedToFindTesterForLeave nat
  | FoundNoTestersWithEmail
  | RegistrationPrompt
  | RulesNotAgreed
  | BetasNotOpen
  | RequestNotification "nat option" bool
  | ApprovalNotice
  | FailedToHandleReaction
  | ErrorReport rr_message "nat option"
  | TesterLeft nat
  | FailedToFindTesterRecord
  | FailedToUpdateTester

datatype action =
    ChannelSend nat msg_text "nat option"
  | MemberSend nat msg_text
  | AddReaction nat emoji
  | RemoveReaction nat emoji
  | AddRoles nat "nat list"
  | CreateBetaTester nat
  | DeleteBetaTester nat nat

subsection \<open>Collaborators and state\<close>

datatype store_op =
    OpFindTester | OpUpsertTester | OpListRequests | OpAddRequest | OpUpdateRequest
  | OpUpdateRequests | OpFetchRequest | OpFetchTester | OpFetchApp
  | OpFindTesterByLeaveMessage | OpFindAppsByBetaGroup | OpGetReactionRole
  | OpListWatchedMessageIds | OpGetConfig

datatype discord_op =
    DAddRoles | DSendApprovalNotification | DMarkPrimary

text \<open>
  The static surroundings of one event: the client's own user, what the platform caches
  resolve, the per-guild configuration, the apps, the distribution API's answers, and
  which store calls and which guarded platform calls fail.
\<close>

record config =
  self_user :: nat
  known_guilds :: "nat list"
  known_channels :: "nat list"
  guild_roles :: "nat list"
  cached_watched_message_ids :: "nat list"
  stored_watched_message_ids :: "nat list"
  approvals_channel_ids :: "nat list"
  default_approvals_channel_id :: "nat option \<Rightarrow> nat option"
  approval_emojis_cfg :: "nat \<Rightarrow> emoji list"
  rejection_emojis_cfg :: "nat \<Rightarrow> emoji list"
  removal_emojis_cfg :: "nat \<Rightarrow> emoji list"
  rule_agreement_role_id :: "nat \<Rightarrow> nat option"
  rule_agreement_message :: "nat \<Rightarrow> (nat \<times> nat) option"
  tester_exit_notification_channel :: "nat \<Rightarrow> nat option"
  reaction_roles :: "(nat \<times> nat \<times> emoji \<times> ReactionRole) list"
  apps :: "App list"
  find_beta_tester :: "string option \<Rightarrow> nat option \<Rightarrow> exn + AscTester list"
  create_beta_tester :: "nat \<Rightarrow> exn option"
  delete_beta_tester :: "nat \<Rightarrow> nat \<Rightarrow> exn option"
  airtable_fails :: "store_op \<Rightarrow> bool"
  discord_fails :: "discord_op \<Rightarrow> bool"

text \<open>
  What handling an event reads and changes: the record store, the platform's messages
  and members, the local message cache, the wall clock, the next fresh id, and the
  trace of outbound actions (most recent last).
\<close>

record world =
  testers :: "Tester list"
  requests :: "TestingRequest list"
  remote :: "Message list"
  cache :: "Message list"
  members :: "Member list"
  clock :: int
  next_id :: nat
  trace :: "action list"

type_synonym 'a io = "world \<Rightarrow> (exn + 'a) \<times> world"

definition ret :: "'a \<Rightarrow> 'a io" where
  "ret x w = (Inr x, w)"

definition raise :: "exn \<Rightarrow> 'a io" where
  "raise e w = (Inl e, w)"

definition bind :: "'a io \<Rightarrow> ('a \<Rightarrow> 'b io) \<Rightarrow> 'b io" where
  "bind m f w = (case m w of (Inl e, w') \<Rightarrow> (Inl e, w') | (Inr x, w') \<Rightarrow> f x w')"

definition emit :: "action \<Rightarrow> unit io" where
  "emit a w = (Inr (), w\<lparr>trace := trace w @ [a]\<rparr>)"

text \<open>A store call: raises \<^verbatim>\<open>AirTableError\<close> when the store fails on that operation.\<close>

definition airtable :: "config \<Rightarrow> store_op \<Rightarrow> 'a io \<Rightarrow> 'a io" where
  "airtable c op m = (if airtable_fails c op then raise AirTableError else m)"

text \<open>\<^verbatim>\<open>async with asyncio.TaskGroup()\<close>: a failing task surfaces as an exception group.\<close>

definition task_group :: "'a io \<Rightarrow> 'a io" where
  "task_group m w = (case m w of (Inl e, w') \<Rightarrow> (Inl ExceptionGroup, w') | r \<Rightarrow> r)"

fun find_message :: "Message list \<Rightarrow> nat \<Rightarrow> Message option" where
  "find_message [] i = None"
| "find_message (m # ms) i = (if m_id m = i then Some m else find_message ms i)"

text \<open>\<^verbatim>\<open>partial_message.fetch()\<close>: the platform's copy, or a platform error when it is gone.\<close>

definition fetch_message :: "nat \<Rightarrow> Message io" where
  "fetch_message i w =
     (case find_message (remote w) i of None \<Rightarrow> (Inl DiscordException, w) | Some m \<Rightarrow> (Inr m, w))"

definition get_channel :: "config \<Rightarrow> nat \<Rightarrow> nat option" where
  "get_channel c i = (if i \<in> set (known_channels c) then Some i else None)"

definition get_or_fetch_message :: "nat option \<Rightarrow> nat \<Rightarrow> Message io" where
  "get_or_fetch_message channel mid w =
     (case channel of
        None \<Rightarrow> (Inl AttributeError, w)
      | Some ch \<Rightarrow>
          (case find_message (cache w) mid of
             Some cached_message \<Rightarrow> (Inr cached_message, w)
           | None \<Rightarrow> fetch_message mid w))"

section \<open>Cross-message synchronizer\<close>

text \<open>
  Python's \<^verbatim>\<open>s in m.reactions\<close> for a string \<^verbatim>\<open>s\<close>: membership by \<^verbatim>\<open>==\<close>. A
  \<^verbatim>\<open>discord.Reaction\<close> is equal only to another \<^verbatim>\<open>Reaction\<close> (with the same emoji),
  never to a string.
\<close>

fun str_eq_reaction :: "emoji \<Rightarrow> Reaction \<Rightarrow> bool" where
  "str_eq_reaction s (Reaction e) = False"

definition str_in :: "emoji \<Rightarrow> Reaction list \<Rightarrow> bool" where
  "str_in s rs \<longleftrightarrow> (\<exists>r \<in> set rs. str_eq_reaction s r)"

text \<open>
  \<^verbatim>\<open>mark_request_messages_handled\<close>: the messages that receive \<^verbatim>\<open>add_reaction(reaction)\<close>,
  those with \<^verbatim>\<open>primary_reaction not in m.reactions and reaction not in m.reactions\<close>.
\<close>

definition messages_to_mark :: "Message list \<Rightarrow> emoji \<Rightarrow> emoji \<Rightarrow> Message list" where
  "messages_to_mark msgs reaction primary_reaction =
     filter (\<lambda>m. \<not> str_in primary_reaction (m_reactions m) \<and> \<not> str_in reaction (m_reactions m)) msgs"

text \<open>The platform keeps one reaction per emoji on a message.\<close>

fun add_reaction_remote :: "Message list \<Rightarrow> nat \<Rightarrow> emoji \<Rightarrow> Message list" where
  "add_reaction_remote [] i e = []"
| "add_reaction_remote (m # ms) i e =
     (if m_id m = i
      then (if e \<in> reaction_emoji ` set (m_reactions m) then m
            else m\<lparr>m_reactions := m_reactions m @ [Reaction e]\<rparr>) # ms
      else m # add_reaction_remote ms i e)"

definition add_reaction :: "nat \<Rightarrow> emoji \<Rightarrow> unit io" where
  "add_reaction i e w =
     (Inr (), w\<lparr>remote := add_reaction_remote (remote w) i e, trace := trace w @ [AddReaction i e]\<rparr>)"

fun add_reactions :: "Message list \<Rightarrow> emoji \<Rightarrow> unit io" where
  "add_reactions [] e = ret ()"
| "add_reactions (m # ms) e = bind (add_reaction (m_id m) e) (\<lambda>_. add_reactions ms e)"

definition mark_request_messages_handled :: "Message list \<Rightarrow> emoji \<Rightarrow> emoji \<Rightarrow> unit io" where
  "mark_request_messages_handled msgs reaction primary_reaction =
     add_reactions (messages_to_mark msgs reaction primary_reaction) reaction"

definition mark_request_message_approved :: "Message list \<Rightarrow> unit io" where
  "mark_request_message_approved msgs =
     mark_request_messages_handled msgs approved_other approved_primary"

definition mark_request_message_rejected :: "Message list \<Rightarrow> unit io" where
  "mark_request_message_rejected msgs =
     mark_request_messages_handled msgs rejected_other rejected_primary"

text \<open>
  The partial messages \<^verbatim>\<open>get_other_request_messages\<close> collects, by the id each is
  made with. In the comprehension the loop variable is named \<^verbatim>\<open>message_id\<close> like the
  parameter, so the filter \<^verbatim>\<open>int(message_id) != message_id\<close> compares each stored id
  with itself, and the further ids go to \<^verbatim>\<open>get_partial_message\<close> as they are stored;
  the primary id goes there as \<^verbatim>\<open>int(...)\<close>.
\<close>

definition other_message_ids :: "nat \<Rightarrow> TestingRequest \<Rightarrow> exn + py_id list" where
  "other_message_ids mid testing_request =
     (let other_messages =
            filter (\<lambda>v. int_ne (py_int v) v) (further_notification_message_ids testing_request)
      in case notification_message_id testing_request of
           None \<Rightarrow> Inl TypeError
         | Some n \<Rightarrow>
             Inr (if py_int n \<noteq> mid then other_messages @ [PyInt (py_int n)] else other_messages))"

text \<open>
  \<^verbatim>\<open>partial_message.to_reference().cached_message\<close>: the cache is searched for a message
  whose (int) id equals the partial message's id, so a partial message made with a string
  id has no cached message.
\<close>

fun cached_message_of :: "world \<Rightarrow> py_id \<Rightarrow> Message option" where
  "cached_message_of w (PyInt i) = find_message (cache w) i"
| "cached_message_of w (PyStr i) = None"

fun collect_messages :: "py_id list \<Rightarrow> (Message list \<times> Message list) io" where
  "collect_messages [] = ret ([], [])"
| "collect_messages (v # vs) = (\<lambda>w.
     case cached_message_of w v of
       Some cached_message \<Rightarrow>
         bind (collect_messages vs) (\<lambda>(cs, ns). ret (cached_message # cs, ns)) w
     | None \<Rightarrow>
         bind (fetch_message (py_int v)) (\<lambda>m.
           bind (collect_messages vs) (\<lambda>(cs, ns). ret (cs, m # ns))) w)"

definition get_other_request_messages ::
  "nat \<Rightarrow> TestingRequest \<Rightarrow> (Message list \<times> Message list) io" where
  "get_other_request_messages mid testing_request =
     (case other_message_ids mid testing_request of
        Inl e \<Rightarrow> raise e
      | Inr other_messages \<Rightarrow>
          if other_messages = [] then ret ([], [])
          else task_group (collect_messages other_messages))"

section \<open>Store adapter\<close>

datatype RequestApprovalFilter = FilterAll | FilterApproved

fun find_tester_in :: "Tester list \<Rightarrow> nat \<Rightarrow> Tester option" where
  "find_tester_in [] d = None"
| "find_tester_in (t # ts) d = (if discord_id t = d then Some t else find_tester_in ts d)"

text \<open>
  Modelled from the spec: the store adapter (\<^verbatim>\<open>botto.storage\<close>) is not among the
  sources. Tester match-by-identity: the record whose external-chat user id is the key.
\<close>

definition find_tester :: "config \<Rightarrow> nat \<Rightarrow> Tester option io" where
  "find_tester c d = airtable c OpFindTester (\<lambda>w. (Inr (find_tester_in (testers w) d), w))"

fun replace_tester :: "Tester list \<Rightarrow> Tester \<Rightarrow> Tester list" where
  "replace_tester [] t = []"
| "replace_tester (x # xs) t =
     (if discord_id x = discord_id t then t # xs else x # replace_tester xs t)"

text \<open>
  Modelled from the spec: upsert keyed by the external-chat user id; an existing record
  keeps its record id and takes the fields given, an absent one is created with a fresh
  record id. The stored record is returned.
\<close>

definition upsert_tester :: "config \<Rightarrow> Tester \<Rightarrow> Tester io" where
  "upsert_tester c t = airtable c OpUpsertTester (\<lambda>w.
     case find_tester_in (testers w) (discord_id t) of
       Some old \<Rightarrow>
         (let t' = t\<lparr>t_id := t_id old\<rparr>
          in (Inr t', w\<lparr>testers := replace_tester (testers w) t'\<rparr>))
     | None \<Rightarrow>
         (let t' = t\<lparr>t_id := Some (next_id w)\<rparr>
          in (Inr t', w\<lparr>testers := testers w @ [t'], next_id := Suc (next_id w)\<rparr>)))"

text \<open>
  Modelled from the spec: request listing filtered by tester id, app id set, approval
  status and removed flag, in the store's order.
\<close>

definition request_matches ::
  "nat \<Rightarrow> nat list option \<Rightarrow> RequestApprovalFilter \<Rightarrow> bool \<Rightarrow> TestingRequest \<Rightarrow> bool" where
  "request_matches tid aids approval_filter exclude_removed r \<longleftrightarrow>
     tester_discord_id r = tid
     \<and> (case aids of None \<Rightarrow> True | Some as \<Rightarrow> app r \<in> set as)
     \<and> (case approval_filter of FilterAll \<Rightarrow> True | FilterApproved \<Rightarrow> status r = APPROVED)
     \<and> (exclude_removed \<longrightarrow> \<not> removed r)"

definition list_requests ::
  "config \<Rightarrow> nat \<Rightarrow> nat list option \<Rightarrow> RequestApprovalFilter \<Rightarrow> bool \<Rightarrow> TestingRequest list io" where
  "list_requests c tid aids approval_filter exclude_removed = airtable c OpListRequests (\<lambda>w.
     (Inr (filter (request_matches tid aids approval_filter exclude_removed) (requests w)), w))"

text \<open>Modelled from the spec: request creation; the new record gets a fresh record id.\<close>

definition add_request :: "config \<Rightarrow> TestingRequest \<Rightarrow> TestingRequest io" where
  "add_request c r = airtable c OpAddRequest (\<lambda>w.
     (let r' = r\<lparr>r_id := Some (next_id w)\<rparr>
      in (Inr r', w\<lparr>requests := requests w @ [r'], next_id := Suc (next_id w)\<rparr>)))"

fun replace_request :: "TestingRequest list \<Rightarrow> TestingRequest \<Rightarrow> TestingRequest list" where
  "replace_request [] r = []"
| "replace_request (x # xs) r =
     (if r_id x = r_id r then r # xs else x # replace_request xs r)"

text \<open>Modelled from the spec: request update, by record id.\<close>

definition update_request :: "config \<Rightarrow> TestingRequest \<Rightarrow> unit io" where
  "update_request c r = airtable c OpUpdateRequest (\<lambda>w.
     (Inr (), w\<lparr>requests := replace_request (requests w) r\<rparr>))"

text \<open>Modelled from the spec: batch update of requests.\<close>

definition update_requests :: "config \<Rightarrow> TestingRequest list \<Rightarrow> unit io" where
  "update_requests c rs = airtable c OpUpdateRequests (\<lambda>w.
     (Inr (), w\<lparr>requests := foldl replace_request (requests w) rs\<rparr>))"

definition request_has_message :: "nat \<Rightarrow> TestingRequest \<Rightarrow> bool" where
  "request_has_message mid r \<longleftrightarrow>
     (case notification_message_id r of None \<Rightarrow> False | Some n \<Rightarrow> py_int n = mid)
     \<or> mid \<in> set (map py_int (further_notification_message_ids r))"

text \<open>
  Modelled from the spec: a request is resolvable from the id of any of its notification
  messages, primary or further.
\<close>

definition fetch_request :: "config \<Rightarrow> nat \<Rightarrow> TestingRequest option io" where
  "fetch_request c mid = airtable c OpFetchRequest (\<lambda>w.
     (Inr (find (request_has_message mid) (requests w)), w))"

text \<open>Modelled from the spec: tester lookup by record id.\<close>

definition fetch_tester :: "config \<Rightarrow> nat option \<Rightarrow> Tester option io" where
  "fetch_tester c i = airtable c OpFetchTester (\<lambda>w.
     (Inr (find (\<lambda>t. t_id t = i \<and> i \<noteq> None) (testers w)), w))"

text \<open>Modelled from the spec: app lookup by id.\<close>

definition fetch_app :: "config \<Rightarrow> nat \<Rightarrow> App option io" where
  "fetch_app c i = airtable c OpFetchApp (ret (find (\<lambda>a. app_id a = i) (apps c)))"

text \<open>Modelled from the spec: app lookup by distribution-group id.\<close>

definition find_apps_by_beta_group :: "config \<Rightarrow> nat list \<Rightarrow> App list io" where
  "find_apps_by_beta_group c gs = airtable c OpFindAppsByBetaGroup
     (ret (filter (\<lambda>a. beta_group_id a \<in> set gs) (apps c)))"

text \<open>Modelled from the spec: the tester whose "left server" message ids hold the id.\<close>

definition find_tester_by_leave_message :: "config \<Rightarrow> nat \<Rightarrow> Tester option io" where
  "find_tester_by_leave_message c mid = airtable c OpFindTesterByLeaveMessage (\<lambda>w.
     (Inr (find (\<lambda>t. mid \<in> set (leave_message_ids t)) (testers w)), w))"

text \<open>Modelled from the spec: the static mapping from (guild, message, emoji).\<close>

definition get_reaction_role :: "config \<Rightarrow> nat \<Rightarrow> nat \<Rightarrow> emoji \<Rightarrow> ReactionRole option io" where
  "get_reaction_role c g m e = airtable c OpGetReactionRole
     (ret (map_option (\<lambda>(_, _, _, rr). rr)
             (find (\<lambda>(g', m', e', _). g' = g \<and> m' = m \<and> e' = e) (reaction_roles c))))"

definition list_watched_message_ids :: "config \<Rightarrow> nat list io" where
  "list_watched_message_ids c = airtable c OpListWatchedMessageIds (ret (stored_watched_message_ids c))"

text \<open>
  Modelled from the spec: the per-guild configuration lookups of the configuration store
  (emoji sets, default approval channel, rules-acceptance role, rules message,
  tester-exit notification channel); the store is not among the sources.
\<close>

definition get_config :: "config \<Rightarrow> 'a \<Rightarrow> 'a io" where
  "get_config c v = airtable c OpGetConfig (ret v)"

definition get_approval_emojis :: "config \<Rightarrow> nat \<Rightarrow> emoji list io" where
  "get_approval_emojis c g = get_config c (approval_emojis_cfg c g)"

definition get_rejection_emojis :: "config \<Rightarrow> nat \<Rightarrow> emoji list io" where
  "get_rejection_emojis c g = get_config c (rejection_emojis_cfg c g)"

definition get_removal_emojis :: "config \<Rightarrow> nat \<Rightarrow> emoji list io" where
  "get_removal_emojis c g = get_config c (removal_emojis_cfg c g)"

section \<open>Platform calls\<close>

definition new_message :: "config \<Rightarrow> nat \<Rightarrow> world \<Rightarrow> Message" where
  "new_message c ch w =
     \<lparr>m_id = next_id w, m_channel = ch, m_author = self_user c, m_reactions = [],
      m_created_at = clock w\<rparr>"

text \<open>\<^verbatim>\<open>channel.send\<close>; a channel that did not resolve is \<^verbatim>\<open>None\<close>.\<close>

definition channel_send :: "config \<Rightarrow> nat option \<Rightarrow> msg_text \<Rightarrow> nat option \<Rightarrow> Message io" where
  "channel_send c channel t reference w =
     (case channel of
        None \<Rightarrow> (Inl AttributeError, w)
      | Some ch \<Rightarrow>
          (let m = new_message c ch w
           in (Inr m, w\<lparr>remote := remote w @ [m], next_id := Suc (next_id w),
                        trace := trace w @ [ChannelSend ch t reference]\<rparr>)))"

text \<open>\<^verbatim>\<open>member.send\<close>: a private message; its channel is identified with the user.\<close>

definition member_send :: "config \<Rightarrow> nat \<Rightarrow> msg_text \<Rightarrow> Message io" where
  "member_send c u t w =
     (let m = new_message c u w
      in (Inr m, w\<lparr>remote := remote w @ [m], next_id := Suc (next_id w),
                   trace := trace w @ [MemberSend u t]\<rparr>))"

text \<open>\<^verbatim>\<open>payload.member.mention\<close>: an attribute of \<^verbatim>\<open>None\<close> when no member came with the event.\<close>

definition mention :: "Member option \<Rightarrow> nat io" where
  "mention m = (case m of None \<Rightarrow> raise AttributeError | Some x \<Rightarrow> ret (mem_id x))"

fun remove_reaction_remote :: "Message list \<Rightarrow> nat \<Rightarrow> emoji \<Rightarrow> Message list" where
  "remove_reaction_remote [] i e = []"
| "remove_reaction_remote (m # ms) i e =
     (if m_id m = i then m\<lparr>m_reactions := removeAll (Reaction e) (m_reactions m)\<rparr> # ms
      else m # remove_reaction_remote ms i e)"

definition remove_reaction :: "nat \<Rightarrow> emoji \<Rightarrow> unit io" where
  "remove_reaction i e w =
     (Inr (), w\<lparr>remote := remove_reaction_remote (remote w) i e,
               trace := trace w @ [RemoveReaction i e]\<rparr>)"

text \<open>A platform call inside a \<^verbatim>\<open>try ... except discord.DiscordException\<close> block.\<close>

definition discord :: "config \<Rightarrow> discord_op \<Rightarrow> 'a io \<Rightarrow> 'a io" where
  "discord c op m = (if discord_fails c op then raise DiscordException else m)"

definition try_except :: "'a io \<Rightarrow> (exn \<Rightarrow> 'a io) \<Rightarrow> 'a io" where
  "try_except m h w = (case m w of (Inl e, w') \<Rightarrow> h e w' | r \<Rightarrow> r)"

definition try_finally :: "'a io \<Rightarrow> unit io \<Rightarrow> 'a io" where
  "try_finally m cleanup w =
     (case m w of (r, w') \<Rightarrow>
        (case cleanup w' of (Inl e, w'') \<Rightarrow> (Inl e, w'') | (Inr _, w'') \<Rightarrow> (r, w'')))"

fun add_roles_members :: "Member list \<Rightarrow> nat \<Rightarrow> nat list \<Rightarrow> Member list" where
  "add_roles_members [] u rs = []"
| "add_roles_members (m # ms) u rs =
     (if mem_id m = u then m\<lparr>mem_roles := mem_roles m @ filter (\<lambda>r. r \<notin> set (mem_roles m)) rs\<rparr> # ms
      else m # add_roles_members ms u rs)"

definition add_roles :: "nat \<Rightarrow> nat list \<Rightarrow> unit io" where
  "add_roles u rs w =
     (Inr (), w\<lparr>members := add_roles_members (members w) u rs, trace := trace w @ [AddRoles u rs]\<rparr>)"

definition get_role :: "config \<Rightarrow> nat \<Rightarrow> nat option" where
  "get_role c r = (if r \<in> set (guild_roles c) then Some r else None)"

definition get_guild :: "config \<Rightarrow> nat \<Rightarrow> nat option" where
  "get_guild c g = (if g \<in> set (known_guilds c) then Some g else None)"

definition get_member :: "world \<Rightarrow> nat \<Rightarrow> Member option" where
  "get_member w u = find (\<lambda>m. mem_id m = u) (members w)"

section \<open>Request state machine: creation path\<close>

definition no_email :: "Tester \<Rightarrow> bool" where
  "no_email t \<longleftrightarrow> (case email t of None \<Rightarrow> True | Some s \<Rightarrow> s = [])"

text \<open>
  \<^verbatim>\<open>TestingRequest(tester=..., tester_discord_id=..., app=..., server_id=...)\<close>.
  Modelled from the spec: the record class is not among the sources; a new request is
  PENDING, not removed, and has no notification yet.
\<close>

definition new_testing_request :: "nat option \<Rightarrow> nat \<Rightarrow> nat \<Rightarrow> nat \<Rightarrow> TestingRequest" where
  "new_testing_request t d a g =
     \<lparr>r_id = None, tester = t, tester_discord_id = d, app = a, server_id = g,
      approval_channel_id = None, status = PENDING, notification_message_id = None,
      further_notification_message_ids = [], removed = False, app_reaction_roles_ids = []\<rparr>"

text \<open>
  Modelled from the spec: \<^verbatim>\<open>add_further_notification_message_id\<close> appends to the
  further-notification-id list.
\<close>

definition add_further_notification_message_id :: "TestingRequest \<Rightarrow> nat \<Rightarrow> TestingRequest" where
  "add_further_notification_message_id r i =
     r\<lparr>further_notification_message_ids := further_notification_message_ids r @ [PyStr i]\<rparr>"

definition send_request_notification_message ::
  "config \<Rightarrow> Member \<Rightarrow> Tester \<Rightarrow> TestingRequest \<Rightarrow> unit io" where
  "send_request_notification_message c user tstr request =
     (let is_repeat = (notification_message_id request \<noteq> None);
          proceed = (\<lambda>approval_channel.
            bind (channel_send c approval_channel (RequestNotification (r_id request) is_repeat) None)
              (\<lambda>message.
                 update_request c
                   (if \<not> is_repeat
                    then request\<lparr>notification_message_id := Some (PyInt (m_id message))\<rparr>
                    else add_further_notification_message_id request (m_id message))))
      in case approval_channel_id request of
           Some request_approval_channel_id \<Rightarrow> proceed (get_channel c request_approval_channel_id)
         | None \<Rightarrow>
             bind (get_config c (default_approvals_channel_id c (Some (server_id request))))
               (\<lambda>guild_approvals_channel_id.
                  case guild_approvals_channel_id of
                    None \<Rightarrow> ret ()
                  | Some gid \<Rightarrow>
                      (case get_channel c gid of
                         None \<Rightarrow> ret ()
                       | Some guild_approvals_channel \<Rightarrow> proceed (Some guild_approvals_channel))))"

definition send_registration_message :: "config \<Rightarrow> Member \<Rightarrow> Message io" where
  "send_registration_message c m = member_send c (mem_id m) RegistrationPrompt"

text \<open>
  The part of \<^verbatim>\<open>handle_role_reaction\<close> for a tester without an email on file; the
  cool-down is 30 minutes of wall-clock time, in seconds here. \<^verbatim>\<open>rest\<close> is what follows
  when the tester has an email.
\<close>

definition registration_gate :: "config \<Rightarrow> Member \<Rightarrow> Tester \<Rightarrow> unit io \<Rightarrow> unit io" where
  "registration_gate c m tstr rest =
     (if no_email tstr then
        (let send = bind (send_registration_message c m) (\<lambda>registration_message.
                      bind (upsert_tester c
                              (tstr\<lparr>registration_message_id := Some (m_id registration_message)\<rparr>))
                        (\<lambda>_. ret ()))
         in case registration_message_id tstr of
              Some rid \<Rightarrow>
                bind (fetch_message rid) (\<lambda>previous_registration_message. (\<lambda>w.
                  if m_created_at previous_registration_message > clock w - 1800
                  then ret () w
                  else send w))
            | None \<Rightarrow> send)
      else rest)"

fun fetch_apps :: "config \<Rightarrow> nat list \<Rightarrow> App option list io" where
  "fetch_apps c [] = ret []"
| "fetch_apps c (i # is) =
     bind (fetch_app c i) (\<lambda>a. bind (fetch_apps c is) (\<lambda>as. ret (a # as)))"

text \<open>
  The section of \<^verbatim>\<open>handle_role_reaction\<close> under the per-actor lock, and the
  notification after it. Handling one event at a time, the lock itself has no effect.
\<close>

definition request_access :: "config \<Rightarrow> payload \<Rightarrow> Member \<Rightarrow> nat \<Rightarrow> nat list \<Rightarrow> unit io" where
  "request_access c p m g aids =
     bind (find_tester c (mem_id m)) (\<lambda>found.
       let t0 = (case found of
                   None \<Rightarrow> \<lparr>t_id = None, username = mem_name m, discord_id = mem_id m,
                            email = None, registration_message_id = None, leave_message_ids = []\<rparr>
                 | Some t \<Rightarrow> t\<lparr>username := mem_name m, discord_id := mem_id m\<rparr>)
       in bind (upsert_tester c t0) (\<lambda>tstr.
            bind (list_requests c (discord_id tstr) (Some aids) FilterAll True)
              (\<lambda>existing_testing_requests.
                 case existing_testing_requests of
                   [] \<Rightarrow>
                     (case aids of
                        [] \<Rightarrow> raise IndexError
                      | a # _ \<Rightarrow>
                          bind (add_request c (new_testing_request (t_id tstr) (discord_id tstr) a g))
                            (\<lambda>testing_request.
                               registration_gate c m tstr
                                 (send_request_notification_message c m tstr testing_request)))
                 | oldest_existing_request # _ \<Rightarrow>
                     if \<exists>r \<in> set existing_testing_requests. status r = REJECTED then ret ()
                     else registration_gate c m tstr
                            (send_request_notification_message c m tstr oldest_existing_request))))"

definition rules_not_agreed :: "config \<Rightarrow> Member \<Rightarrow> nat \<Rightarrow> unit io" where
  "rules_not_agreed c m g =
     (let send = bind (member_send c (mem_id m) RulesNotAgreed) (\<lambda>_. ret ())
      in bind (get_config c (rule_agreement_message c g)) (\<lambda>rules_message_details.
           case rules_message_details of
             None \<Rightarrow> send
           | Some (rules_channel_id, rules_message_id) \<Rightarrow>
               (case get_channel c rules_channel_id of None \<Rightarrow> ret () | Some _ \<Rightarrow> send)))"

text \<open>
  After the rules check: the closed-beta notice, the direct role grant, or the request
  workflow. App ids are record ids here, so none of them is \<^verbatim>\<open>None\<close> or empty.
\<close>

definition grant_or_request :: "config \<Rightarrow> payload \<Rightarrow> Member \<Rightarrow> nat \<Rightarrow> ReactionRole \<Rightarrow> unit io" where
  "grant_or_request c p m g reaction_role =
     bind (fetch_apps c (app_ids reaction_role)) (\<lambda>fetched.
       if None \<in> set fetched then raise AttributeError
       else if filter (\<lambda>a. \<not> beta_open a) (map the fetched) \<noteq> [] then
         (case get_channel c (channel_id p) of
            None \<Rightarrow> raise AttributeError
          | Some _ \<Rightarrow> bind (member_send c (mem_id m) BetasNotOpen) (\<lambda>_. ret ()))
       else if app_ids reaction_role = [] then
         (case get_role c (role_id reaction_role) of
            None \<Rightarrow> ret ()
          | Some role \<Rightarrow>
              if role \<notin> set (mem_roles m) then add_roles (mem_id m) [role] else ret ())
       else request_access c p m g (app_ids reaction_role))"

definition handle_role_reaction :: "config \<Rightarrow> payload \<Rightarrow> unit io" where
  "handle_role_reaction c p =
     bind (if length (cached_watched_message_ids c) > 0 then ret (cached_watched_message_ids c)
           else list_watched_message_ids c) (\<lambda>watched_message_ids.
       if message_id p \<notin> set watched_message_ids then ret ()
       else case member p of
         None \<Rightarrow> ret ()
       | Some m \<Rightarrow>
          (case guild_id p of
             None \<Rightarrow> ret ()
           | Some g \<Rightarrow>
              (case get_guild c g of
                 None \<Rightarrow> ret ()
               | Some guild \<Rightarrow>
                  bind (get_reaction_role c g (message_id p) (emoji_name p)) (\<lambda>found.
                    case found of
                      None \<Rightarrow> ret ()
                    | Some reaction_role \<Rightarrow>
                        if requires_rules_approval reaction_role then
                          bind (get_config c (rule_agreement_role_id c g)) (\<lambda>rid.
                            case rid of
                              None \<Rightarrow> grant_or_request c p m g reaction_role
                            | Some rule_agreement_role \<Rightarrow>
                                if rule_agreement_role \<notin> set (mem_roles m)
                                then rules_not_agreed c m g
                                else grant_or_request c p m g reaction_role)
                        else grant_or_request c p m g reaction_role))))"

section \<open>Request state machine: approval and rejection\<close>

definition is_approval_channel :: "config \<Rightarrow> nat \<Rightarrow> nat \<Rightarrow> bool io" where
  "is_approval_channel c ch g =
     (if ch \<in> set (approvals_channel_ids c) then ret True
      else bind (get_config c (default_approvals_channel_id c (Some g)))
             (\<lambda>default_id. ret (Some ch = default_id)))"

definition is_own_message :: "config \<Rightarrow> payload \<Rightarrow> (bool \<times> Message) io" where
  "is_own_message c p =
     bind (get_or_fetch_message (get_channel c (channel_id p)) (message_id p))
       (\<lambda>message. ret (m_author message = self_user c, message))"

definition check_valid_role_reaction_channel ::
  "config \<Rightarrow> payload \<Rightarrow> (nat \<times> Message) option io" where
  "check_valid_role_reaction_channel c p =
     (case guild_id p of
        None \<Rightarrow> ret None
      | Some g \<Rightarrow>
          bind (is_approval_channel c (channel_id p) g) (\<lambda>ok.
            if \<not> ok then ret None
            else case get_guild c g of
              None \<Rightarrow> ret None
            | Some guild \<Rightarrow>
                bind (is_own_message c p) (\<lambda>(is_self, message).
                  if \<not> is_self then ret None else ret (Some (guild, message)))))"

text \<open>
  \<^verbatim>\<open>add_tester_to_group\<close>. The \<^verbatim>\<open>match\<close> on the caught distribution error has
  three cases and no default; only the invalid-attribute case re-raises.
\<close>

definition add_tester_to_group :: "config \<Rightarrow> payload \<Rightarrow> Tester \<Rightarrow> App \<Rightarrow> unit io" where
  "add_tester_to_group c p tstr ap =
     try_except
       (case find_beta_tester c (email tstr) (Some (app_id ap)) of
          Inl e \<Rightarrow> raise e
        | Inr testers_with_email \<Rightarrow>
            if beta_group_id ap \<in> set (concat (map beta_group_ids testers_with_email)) then ret ()
            else (case create_beta_tester c (app_id ap) of
                    Some e \<Rightarrow> raise e
                  | None \<Rightarrow> emit (CreateBetaTester (app_id ap))))
       (\<lambda>e. case e of
          AppStoreConnectError error \<Rightarrow>
            (case get_channel c (channel_id p) of
               None \<Rightarrow> raise AttributeError
             | Some ch \<Rightarrow>
                 (case error of
                    ApiKeyNotSetError \<Rightarrow>
                      bind (mention (member p)) (\<lambda>_.
                        bind (channel_send c (Some ch) NoApiKeySet (Some (message_id p)))
                          (\<lambda>_. ret ()))
                  | BetaGroupNotSetError \<Rightarrow>
                      bind (mention (member p)) (\<lambda>_.
                        bind (channel_send c (Some ch) NoBetaGroupSet (Some (message_id p)))
                          (\<lambda>_. ret ()))
                  | InvalidAttributeError details \<Rightarrow>
                      bind (mention (member p)) (\<lambda>_.
                        bind (channel_send c (Some ch) (InvalidTesterAttribute details)
                                (Some (message_id p)))
                          (\<lambda>_. raise e))
                  | OtherAppStoreConnectError \<Rightarrow> ret ()))
        | _ \<Rightarrow> raise e)"

text \<open>
  The exception, if any, that the distribution API raises inside the \<^verbatim>\<open>try\<close> block of
  \<^verbatim>\<open>add_tester_to_group\<close>: from the lookup, or from the creation when the tester is
  not in the app's group yet.
\<close>

definition distribution_failure :: "config \<Rightarrow> Tester \<Rightarrow> App \<Rightarrow> exn option" where
  "distribution_failure c tstr ap =
     (case find_beta_tester c (email tstr) (Some (app_id ap)) of
        Inl e \<Rightarrow> Some e
      | Inr testers_with_email \<Rightarrow>
          if beta_group_id ap \<in> set (concat (map beta_group_ids testers_with_email)) then None
          else create_beta_tester c (app_id ap))"

definition send_approval_notification :: "config \<Rightarrow> TestingRequest \<Rightarrow> Tester \<Rightarrow> unit io" where
  "send_approval_notification c request tstr =
     bind (member_send c (tester_discord_id request) ApprovalNotice) (\<lambda>_. ret ())"

text \<open>\<^verbatim>\<open>except discord.DiscordException as e: raise ReactionRoleError(...) from e\<close>\<close>

definition wrap_discord :: "exn \<Rightarrow> 'a io \<Rightarrow> 'a io" where
  "wrap_discord err m = try_except m (\<lambda>e. case e of DiscordException \<Rightarrow> raise err | _ \<Rightarrow> raise e)"

definition wrap_airtable :: "exn \<Rightarrow> 'a io \<Rightarrow> 'a io" where
  "wrap_airtable err m = try_except m (\<lambda>e. case e of AirTableError \<Rightarrow> raise err | _ \<Rightarrow> raise e)"

text \<open>
  The fan-out at the end of approval and rejection. The marking coroutines hand back
  the gathered reactions without awaiting them, so their failure does not reach the
  handler.
\<close>

definition mark_other_messages ::
  "payload \<Rightarrow> TestingRequest \<Rightarrow> (Message list \<Rightarrow> unit io) \<Rightarrow> exn \<Rightarrow> unit io" where
  "mark_other_messages p testing_request mark err =
     wrap_discord err
       (bind (get_other_request_messages (message_id p) testing_request)
          (\<lambda>(cached_messages, non_cached_messages).
             if cached_messages = [] \<and> non_cached_messages = [] then ret ()
             else task_group (bind (mark cached_messages) (\<lambda>_. mark non_cached_messages))))"

text \<open>
  The role grant of \<^verbatim>\<open>handle_role_approval\<close>. \<^verbatim>\<open>all(r in tester_user.roles for r in roles)\<close>
  reads the member's roles only when there is a role to look for, so a member the guild
  does not know is an error only then.
\<close>

definition grant_roles :: "config \<Rightarrow> exn \<Rightarrow> TestingRequest \<Rightarrow> Tester \<Rightarrow> unit io" where
  "grant_roles c err testing_request tstr =
     (let roles = map (get_role c) (app_reaction_roles_ids testing_request)
      in if roles = [] then ret ()
         else (\<lambda>w. (case get_member w (discord_id tstr) of
                 None \<Rightarrow> raise AttributeError
               | Some tester_user \<Rightarrow>
                   if \<not> (\<forall>r \<in> set roles. r \<in> Some ` set (mem_roles tester_user)) then
                     wrap_discord err
                       (discord c DAddRoles
                          (if None \<in> set roles then raise AttributeError
                           else add_roles (mem_id tester_user) (map the roles)))
                   else ret ()) w))"

text \<open>
  The steps of \<^verbatim>\<open>handle_role_approval\<close> after the add-tester step: role grant,
  tester notification, persistence, marking the reacted message, fan-out.
\<close>

definition complete_approval ::
  "config \<Rightarrow> payload \<Rightarrow> Message \<Rightarrow> bool \<Rightarrow> TestingRequest \<Rightarrow> Tester \<Rightarrow> unit io" where
  "complete_approval c p message is_previously_approved_testing_request testing_request tstr =
     (let ref = m_id message;
          who = map_option mem_id (member p)
      in bind (grant_roles c (ReactionRoleError FailedToAddRoles ref who) testing_request tstr) (\<lambda>_.
         bind (if \<not> is_previously_approved_testing_request then
                 wrap_discord (ReactionRoleError FailedToSendNotification ref who)
                   (discord c DSendApprovalNotification
                      (send_approval_notification c testing_request tstr))
               else ret ()) (\<lambda>_.
         bind (wrap_airtable (ReactionRoleError FailedToMarkApprovedInAirtable ref who)
                 (update_request c testing_request)) (\<lambda>_.
         bind (wrap_discord (ReactionRoleError FailedToMarkApproved ref who)
                 (discord c DMarkPrimary (add_reaction (m_id message) approved_primary)))
           (\<lambda>_.
         mark_other_messages p testing_request mark_request_message_approved
           (ReactionRoleError FailedToMarkOtherApproved ref who))))))"

text \<open>
  The steps of \<^verbatim>\<open>handle_role_approval\<close> once tester and app are at hand: the status
  is set on the local request, the add-tester step runs, and only an invalid-attribute
  error from it ends the approval. \<^verbatim>\<open>testing_request.approved\<close> is a property of the
  record class, which is not among the sources; it is read as the status being APPROVED.
\<close>

definition approve ::
  "config \<Rightarrow> payload \<Rightarrow> Message \<Rightarrow> TestingRequest \<Rightarrow> Tester \<Rightarrow> App \<Rightarrow> unit io" where
  "approve c p message request0 tstr ap =
     (let is_previously_approved_testing_request = (status request0 = APPROVED);
          testing_request = request0\<lparr>status := APPROVED\<rparr>
      in bind (try_except
                 (bind (add_tester_to_group c p tstr ap) (\<lambda>_. ret True))
                 (\<lambda>e. case e of
                    AppStoreConnectError (InvalidAttributeError _) \<Rightarrow> ret False
                  | _ \<Rightarrow> raise e))
           (\<lambda>added.
              if added
              then complete_approval c p message is_previously_approved_testing_request
                     testing_request tstr
              else ret ()))"

definition handle_role_approval :: "config \<Rightarrow> payload \<Rightarrow> unit io" where
  "handle_role_approval c p =
     bind (check_valid_role_reaction_channel c p) (\<lambda>guild_and_message.
       case guild_and_message of
         None \<Rightarrow> ret ()
       | Some (guild, message) \<Rightarrow>
          (let channel = get_channel c (channel_id p)
           in bind (get_approval_emojis c guild) (\<lambda>approval_emojis.
                if emoji_name p \<notin> set approval_emojis then ret ()
                else bind (fetch_request c (message_id p)) (\<lambda>found.
                  case found of
                    None \<Rightarrow>
                      bind (mention (member p)) (\<lambda>_.
                        bind (channel_send c channel NoRequestFoundForApproval (Some (m_id message)))
                          (\<lambda>_. ret ()))
                  | Some testing_request \<Rightarrow>
                      if status testing_request = REJECTED then
                        bind (channel_send c channel PreviouslyRejectedCannotApprove
                                (Some (m_id message)))
                          (\<lambda>_. ret ())
                      else
                        bind (task_group
                                (bind (fetch_tester c (tester testing_request)) (\<lambda>t.
                                   bind (fetch_app c (app testing_request)) (\<lambda>a. ret (t, a)))))
                          (\<lambda>(fetched_tester, fetched_app).
                             case fetched_tester of
                               None \<Rightarrow> raise (ReactionRoleError CouldNotFindTester (m_id message)
                                                (map_option mem_id (member p)))
                             | Some tstr \<Rightarrow>
                                 (case fetched_app of
                                    None \<Rightarrow> raise (ReactionRoleError FailedToFetchApp (m_id message)
                                                     (map_option mem_id (member p)))
                                  | Some ap \<Rightarrow> approve c p message testing_request tstr ap))))))"

definition handle_role_rejection :: "config \<Rightarrow> payload \<Rightarrow> bool io" where
  "handle_role_rejection c p =
     bind (check_valid_role_reaction_channel c p) (\<lambda>guild_and_message.
       case guild_and_message of
         None \<Rightarrow> ret False
       | Some (guild, message) \<Rightarrow>
          (let channel = get_channel c (channel_id p);
               ref = m_id message;
               who = map_option mem_id (member p)
           in bind (get_rejection_emojis c guild) (\<lambda>rejection_emojis.
                if emoji_name p \<notin> set rejection_emojis then ret False
                else bind (fetch_request c (message_id p)) (\<lambda>found.
                  case found of
                    None \<Rightarrow>
                      bind (mention (member p)) (\<lambda>_.
                        bind (channel_send c channel NoRequestFoundForRejection (Some ref))
                          (\<lambda>_. ret False))
                  | Some request0 \<Rightarrow>
                      if status request0 = APPROVED then
                        bind (channel_send c channel PreviouslyApprovedCannotReject (Some ref))
                          (\<lambda>_. ret True)
                      else
                        (let testing_request = request0\<lparr>status := REJECTED\<rparr>
                         in bind (wrap_airtable (ReactionRoleError FailedToMarkRejectedInAirtable ref who)
                                    (update_request c testing_request)) (\<lambda>_.
                            bind (wrap_discord (ReactionRoleError FailedToMarkRejected ref who)
                                    (discord c DMarkPrimary
                                       (add_reaction (m_id message) rejected_primary))) (\<lambda>_.
                            bind (mark_other_messages p testing_request mark_request_message_rejected
                                    (ReactionRoleError FailedToMarkOtherRejected ref who))
                              (\<lambda>_. ret True))))))))"

section \<open>Removal\<close>

fun dict_put :: "(nat \<times> App) list \<Rightarrow> nat \<Rightarrow> App \<Rightarrow> (nat \<times> App) list" where
  "dict_put [] k v = [(k, v)]"
| "dict_put ((k', v') # kvs) k v =
     (if k' = k then (k, v) # kvs else (k', v') # dict_put kvs k v)"

definition apps_by_key :: "App list \<Rightarrow> App list" where
  "apps_by_key as = map snd (foldl (\<lambda>d a. dict_put d (app_store_key_id a) a) [] as)"

fun delete_from_apps :: "config \<Rightarrow> nat \<Rightarrow> App list \<Rightarrow> nat list io" where
  "delete_from_apps c t [] = ret []"
| "delete_from_apps c t (a # as) =
     (case delete_beta_tester c t (app_id a) of
        Some e \<Rightarrow> raise e
      | None \<Rightarrow>
          bind (emit (DeleteBetaTester t (app_id a))) (\<lambda>_.
            bind (delete_from_apps c t as) (\<lambda>ids. ret (app_id a # ids))))"

fun remove_each :: "config \<Rightarrow> AscTester list \<Rightarrow> nat list io" where
  "remove_each c [] = ret []"
| "remove_each c (app_store_tester # rest) =
     bind (find_apps_by_beta_group c (beta_group_ids app_store_tester)) (\<lambda>apps_for_beta_group.
       bind (task_group (delete_from_apps c (asc_id app_store_tester) (apps_by_key apps_for_beta_group)))
         (\<lambda>ids. bind (remove_each c rest) (\<lambda>more. ret (ids @ more))))"

text \<open>
  \<^verbatim>\<open>remove_tester_from_app_store\<close> as its only caller uses it, with no apps given.
  A distribution error can reach the handler only from the first lookup, before the
  loop variable \<^verbatim>\<open>app\<close> that two of the three cases print is bound.
\<close>

definition remove_tester_from_app_store :: "config \<Rightarrow> payload \<Rightarrow> Tester \<Rightarrow> unit io" where
  "remove_tester_from_app_store c p tstr =
     try_except
       (case find_beta_tester c (email tstr) None of
          Inl e \<Rightarrow> raise e
        | Inr testers_with_email \<Rightarrow>
            (case get_channel c (channel_id p) of
               None \<Rightarrow> raise AttributeError
             | Some ch \<Rightarrow>
                 if testers_with_email = [] then
                   bind (mention (member p)) (\<lambda>_.
                     bind (channel_send c (Some ch) FoundNoTestersWithEmail (Some (message_id p)))
                       (\<lambda>_. ret ()))
                 else
                   bind (remove_each c testers_with_email) (\<lambda>removed_app_ids.
                     bind (list_requests c (discord_id tstr) (Some removed_app_ids) FilterApproved True)
                       (\<lambda>records_to_update.
                          update_requests c (map (\<lambda>r. r\<lparr>removed := True\<rparr>) records_to_update)))))
       (\<lambda>e. case e of
          AppStoreConnectError error \<Rightarrow>
            (case get_channel c (channel_id p) of
               None \<Rightarrow> raise AttributeError
             | Some ch \<Rightarrow>
                 (case error of
                    ApiKeyNotSetError \<Rightarrow> raise UnboundLocalError
                  | BetaGroupNotSetError \<Rightarrow> raise UnboundLocalError
                  | InvalidAttributeError details \<Rightarrow>
                      bind (mention (member p)) (\<lambda>_.
                        bind (channel_send c (Some ch) (InvalidTesterAttribute details)
                                (Some (message_id p)))
                          (\<lambda>_. raise e))
                  | OtherAppStoreConnectError \<Rightarrow> ret ()))
        | _ \<Rightarrow> raise e)"

definition handle_removal_reaction :: "config \<Rightarrow> payload \<Rightarrow> bool io" where
  "handle_removal_reaction c p =
     bind (check_valid_role_reaction_channel c p) (\<lambda>guild_and_message.
       case guild_and_message of
         None \<Rightarrow> ret False
       | Some (guild, message) \<Rightarrow>
           bind (add_reaction (m_id message) processing_emoji) (\<lambda>_.
             bind (get_removal_emojis c guild) (\<lambda>removal_emojis.
               if emoji_name p \<notin> set removal_emojis then ret False
               else bind (find_tester_by_leave_message c (message_id p)) (\<lambda>found.
                 case found of
                   None \<Rightarrow>
                     bind (channel_send c (get_channel c (channel_id p))
                             (FailedToFindTesterForLeave (message_id p)) None)
                       (\<lambda>_. ret False)
                 | Some tstr \<Rightarrow>
                     bind (remove_tester_from_app_store c p tstr) (\<lambda>_.
                       bind (add_reaction (m_id message) door_emoji) (\<lambda>_. ret True))))))"

section \<open>Reaction router and escalation reporter\<close>

text \<open>
  Modelled from the spec: \<^verbatim>\<open>get_or_fetch_channel\<close> belongs to the client base class,
  which is not among the sources. It resolves the channel an error is reported to: the
  channel when the platform knows it, a platform error otherwise.
\<close>

definition get_or_fetch_channel :: "config \<Rightarrow> nat option \<Rightarrow> nat io" where
  "get_or_fetch_channel c i =
     (case i of
        None \<Rightarrow> raise DiscordException
      | Some ch \<Rightarrow> if ch \<in> set (known_channels c) then ret ch else raise DiscordException)"

definition dispatch :: "config \<Rightarrow> payload \<Rightarrow> bool io" where
  "dispatch c p =
     (if event_type p = ''REACTION_ADD'' then
        bind (handle_role_reaction c p) (\<lambda>_.
          bind (handle_role_approval c p) (\<lambda>_.
            bind (handle_role_rejection c p) (\<lambda>handled.
              if handled then ret True else handle_removal_reaction c p)))
      else ret False)"

definition report_airtable_error :: "config \<Rightarrow> payload \<Rightarrow> bool io" where
  "report_airtable_error c p =
     bind (get_or_fetch_channel c (Some (channel_id p))) (\<lambda>reaction_channel.
       bind (case guild_id p of
               None \<Rightarrow> ret False
             | Some g \<Rightarrow> is_approval_channel c (channel_id p) g) (\<lambda>here.
         bind (if here then ret reaction_channel
               else bind (get_config c (default_approvals_channel_id c (guild_id p)))
                      (get_or_fetch_channel c)) (\<lambda>channel.
           bind (mention (member p)) (\<lambda>_.
             bind (channel_send c (Some channel) FailedToHandleReaction (Some (message_id p)))
               (\<lambda>_. ret False)))))"

definition report_reaction_role_error ::
  "config \<Rightarrow> payload \<Rightarrow> rr_message \<Rightarrow> nat \<Rightarrow> nat option \<Rightarrow> bool io" where
  "report_reaction_role_error c p msg reference mention_member =
     bind (get_or_fetch_channel c (Some (channel_id p))) (\<lambda>channel.
       bind (channel_send c (Some channel) (ErrorReport msg mention_member) (Some reference))
         (\<lambda>_. ret True))"

definition clear_processing_marker :: "config \<Rightarrow> payload \<Rightarrow> unit io" where
  "clear_processing_marker c p =
     bind (get_or_fetch_message (get_channel c (channel_id p)) (message_id p))
       (\<lambda>message. remove_reaction (m_id message) processing_emoji)"

text \<open>The \<^verbatim>\<open>try\<close> block of \<^verbatim>\<open>handle_reaction\<close> with its two \<^verbatim>\<open>except\<close> clauses.\<close>

definition attempt :: "config \<Rightarrow> payload \<Rightarrow> bool io" where
  "attempt c p =
     try_except (dispatch c p)
       (\<lambda>e. case e of
          AirTableError \<Rightarrow> report_airtable_error c p
        | ReactionRoleError msg reference mention_member \<Rightarrow>
            report_reaction_role_error c p msg reference mention_member
        | _ \<Rightarrow> raise e)"

definition handle_reaction :: "config \<Rightarrow> payload \<Rightarrow> bool io" where
  "handle_reaction c p = try_finally (attempt c p) (clear_processing_marker c p)"

text \<open>Whether the platform's copy of a message carries an emoji.\<close>

definition carries :: "Message list \<Rightarrow> nat \<Rightarrow> emoji \<Rightarrow> bool" where
  "carries ms i e =
     (case find_message ms i of None \<Rightarrow> False | Some m \<Rightarrow> e \<in> reaction_emoji ` set (m_reactions m))"

section \<open>Member-leave events\<close>

definition fetch_apps_for_tester ::
  "config \<Rightarrow> nat \<Rightarrow> RequestApprovalFilter \<Rightarrow> App option list io" where
  "fetch_apps_for_tester c u approval_filter =
     bind (list_requests c u None approval_filter True) (\<lambda>rs. fetch_apps c (map app rs))"

definition on_raw_member_remove :: "config \<Rightarrow> nat \<Rightarrow> nat \<Rightarrow> unit io" where
  "on_raw_member_remove c u g =
     bind (get_config c (tester_exit_notification_channel c g)) (\<lambda>exit_notification_channel_id.
       case exit_notification_channel_id of
         None \<Rightarrow> ret ()
       | Some exit_id \<Rightarrow>
           bind (fetch_apps_for_tester c u FilterApproved) (\<lambda>fetched.
             if None \<in> set fetched then raise AttributeError
             else if length fetched = 0 then ret ()
             else case get_channel c exit_id of
               None \<Rightarrow> ret ()
             | Some exit_notification_channel \<Rightarrow>
                 bind (channel_send c (Some exit_notification_channel) (TesterLeft u) None)
                   (\<lambda>message.
                      bind (find_tester c u) (\<lambda>found.
                        case found of
                          None \<Rightarrow>
                            bind (channel_send c (Some exit_notification_channel)
                                    FailedToFindTesterRecord None)
                              (\<lambda>_. ret ())
                        | Some tstr \<Rightarrow>
                            try_except
                              (bind (upsert_tester c
                                       (tstr\<lparr>leave_message_ids :=
                                               leave_message_ids tstr @ [m_id message]\<rparr>))
                                 (\<lambda>_. ret ()))
                              (\<lambda>e. case e of
                                 AirTableError \<Rightarrow>
                                   bind (channel_send c (Some exit_notification_channel)
                                           FailedToUpdateTester None)
                                     (\<lambda>_. ret ())
                               | _ \<Rightarrow> raise e)))))"


section \<open>Notions for stating the creation path\<close>

text \<open>
  The channel \<^verbatim>\<open>send_request_notification_message\<close> resolves for a request: the
  request's own approval channel, else the guild's default one.
\<close>

definition approval_channel_for :: "config \<Rightarrow> TestingRequest \<Rightarrow> nat option" where
  "approval_channel_for c r =
     (case approval_channel_id r of
        Some i \<Rightarrow> get_channel c i
      | None \<Rightarrow>
          (case default_approvals_channel_id c (Some (server_id r)) of
             None \<Rightarrow> None
           | Some gid \<Rightarrow> get_channel c gid))"

text \<open>No stored request has the id the next created record or message will get.\<close>

definition fresh_ids :: "world \<Rightarrow> bool" where
  "fresh_ids w \<longleftrightarrow> (\<forall>r \<in> set (requests w). r_id r \<noteq> Some (next_id w))"

text \<open>The registration prompt that a user's tester record points to, if it is still there.\<close>

definition registered_prompt :: "world \<Rightarrow> nat \<Rightarrow> Message option" where
  "registered_prompt w u =
     (case find_tester_in (testers w) u of
        None \<Rightarrow> None
      | Some t \<Rightarrow>
          (case registration_message_id t of None \<Rightarrow> None | Some i \<Rightarrow> find_message (remote w) i))"

text \<open>Since the state with trace \<^verbatim>\<open>old\<close>, at most the registration prompt to user \<^verbatim>\<open>u\<close> was sent.\<close>

definition at_most_prompt :: "nat \<Rightarrow> action list \<Rightarrow> action list \<Rightarrow> bool" where
  "at_most_prompt u old new \<longleftrightarrow> new = old \<or> new = old @ [MemberSend u RegistrationPrompt]"

section \<open>Messages that stay obtainable\<close>

text \<open>
  Between two states of one handling the message cache is the same and no message of the
  platform has disappeared.
\<close>

definition messages_kept :: "world \<Rightarrow> world \<Rightarrow> bool" where
  "messages_kept w w' \<longleftrightarrow>
     cache w' = cache w \<and> (\<forall>i. find_message (remote w) i \<noteq> None \<longrightarrow> find_message (remote w') i \<noteq> None)"

definition keeps :: "'a io \<Rightarrow> bool" where
  "keeps m \<longleftrightarrow> (\<forall>w r w'. m w = (r, w') \<longrightarrow> messages_kept w w')"

section \<open>Concrete scenarios\<close>

text \<open>
  A guild 9 with approval channel 3 and exit-notification channel 4; the client is user 1.
  Message 10 is watched and maps the emoji \<^verbatim>\<open>a\<close> to app 5, whose role is 50.
\<close>

definition ex_app :: App where
  "ex_app = \<lparr>app_id = 5, app_name = ''App'', beta_open = True, beta_group_id = 77,
     app_store_key_id = 88\<rparr>"

definition ex_config :: config where
  "ex_config = \<lparr>self_user = 1, known_guilds = [9], known_channels = [3, 4, 6], guild_roles = [50],
     cached_watched_message_ids = [10], stored_watched_message_ids = [10],
     approvals_channel_ids = [3], default_approvals_channel_id = (\<lambda>_. Some 3),
     approval_emojis_cfg = (\<lambda>_. [''yes'']), rejection_emojis_cfg = (\<lambda>_. [''no'']),
     removal_emojis_cfg = (\<lambda>_. [''out'']), rule_agreement_role_id = (\<lambda>_. None),
     rule_agreement_message = (\<lambda>_. None), tester_exit_notification_channel = (\<lambda>_. Some 4),
     reaction_roles = [(9, 10, ''a'', \<lparr>role_id = 50, app_ids = [5], requires_rules_approval = False\<rparr>)],
     apps = [ex_app], find_beta_tester = (\<lambda>_ _. Inr []), create_beta_tester = (\<lambda>_. None),
     delete_beta_tester = (\<lambda>_ _. None), airtable_fails = (\<lambda>_. False),
     discord_fails = (\<lambda>_. False)\<rparr>"

definition ex_moderator :: Member where
  "ex_moderator = \<lparr>mem_id = 2, mem_name = ''mod'', mem_roles = []\<rparr>"

definition ex_member :: Member where
  "ex_member = \<lparr>mem_id = 7, mem_name = ''tess'', mem_roles = []\<rparr>"

definition ex_tester :: "string option \<Rightarrow> Tester" where
  "ex_tester e = \<lparr>t_id = Some 20, username = ''tess'', discord_id = 7, email = e,
     registration_message_id = None, leave_message_ids = []\<rparr>"

definition ex_request :: "RequestStatus \<Rightarrow> TestingRequest" where
  "ex_request s = \<lparr>r_id = Some 30, tester = Some 20, tester_discord_id = 7, app = 5, server_id = 9,
     approval_channel_id = None, status = s, notification_message_id = Some (PyStr 100),
     further_notification_message_ids = [], removed = False, app_reaction_roles_ids = [50]\<rparr>"

definition ex_notification :: Message where
  "ex_notification = \<lparr>m_id = 100, m_channel = 3, m_author = 1, m_reactions = [], m_created_at = 0\<rparr>"

text \<open>The store holds tester 7 with one request in the given status, notified by message 100.\<close>

definition ex_other_message :: Message where
  "ex_other_message = \<lparr>m_id = 101, m_channel = 6, m_author = 2, m_reactions = [], m_created_at = 0\<rparr>"

definition ex_world :: "RequestStatus \<Rightarrow> world" where
  "ex_world s = \<lparr>testers = [ex_tester (Some ''t@example.org'')], requests = [ex_request s],
     remote = [ex_notification, ex_other_message], cache = [ex_notification],
     members = [ex_moderator, ex_member], clock = 5000, next_id = 1000, trace = []\<rparr>"

text \<open>A reaction by the moderator on message 101, outside the approval channel.\<close>

definition ex_reaction_elsewhere :: payload where
  "ex_reaction_elsewhere = \<lparr>event_type = ''REACTION_ADD'', user_id = 2, message_id = 101,
     channel_id = 6, guild_id = Some 9, emoji_name = ''yes'', member = Some ex_moderator\<rparr>"

text \<open>The distribution API fails with the given exception on every lookup.\<close>

definition ex_config_failing :: "exn \<Rightarrow> config" where
  "ex_config_failing e = ex_config\<lparr>find_beta_tester := (\<lambda>_ _. Inl e)\<rparr>"

text \<open>A moderator's reaction with the given emoji on the notification message 100.\<close>

definition ex_reaction :: "emoji \<Rightarrow> payload" where
  "ex_reaction e = \<lparr>event_type = ''REACTION_ADD'', user_id = 2, message_id = 100, channel_id = 3,
     guild_id = Some 9, emoji_name = e, member = Some ex_moderator\<rparr>"

text \<open>Tester 7 has left; message 100 announces it.\<close>

definition ex_world_left :: world where
  "ex_world_left = (ex_world APPROVED)\<lparr>testers :=
     [(ex_tester (Some ''t@example.org''))\<lparr>leave_message_ids := [100]\<rparr>]\<rparr>"

text \<open>The store fails on one operation.\<close>

definition ex_config_store_failing :: "store_op \<Rightarrow> config" where
  "ex_config_store_failing op = ex_config\<lparr>airtable_fails := (\<lambda>x. x = op)\<rparr>"

text \<open>Member 7 reacts with \<^verbatim>\<open>a\<close> on the watched message 10.\<close>

definition ex_role_reaction :: payload where
  "ex_role_reaction = \<lparr>event_type = ''REACTION_ADD'', user_id = 7, message_id = 10, channel_id = 6,
     guild_id = Some 9, emoji_name = ''a'', member = Some ex_member\<rparr>"

definition ex_world_no_requests :: world where
  "ex_world_no_requests = (ex_world PENDING)\<lparr>requests := []\<rparr>"

text \<open>Nothing is stored yet: member 7 is not known as a tester.\<close>

definition ex_world_empty :: world where
  "ex_world_empty = (ex_world PENDING)\<lparr>testers := [], requests := []\<rparr>"

text \<open>Tester 7 has no email on file and was prompted to register at time 4000.\<close>

definition ex_prompt :: Message where
  "ex_prompt = \<lparr>m_id = 102, m_channel = 7, m_author = 1, m_reactions = [], m_created_at = 4000\<rparr>"

definition ex_world_prompted :: world where
  "ex_world_prompted = (ex_world PENDING)\<lparr>
     testers := [(ex_tester None)\<lparr>registration_message_id := Some 102\<rparr>],
     remote := [ex_notification, ex_other_message, ex_prompt]\<rparr>"

text \<open>
  The request of tester 7 with primary notification 100 and one further notification
  200, ids stored as strings. Both copies are in the approval channel and in the message
  cache, and carry no reaction yet. The moderator approves on the further copy 200.
\<close>

definition c4_request :: TestingRequest where
  "c4_request = (ex_request PENDING)\<lparr>further_notification_message_ids := [PyStr 200]\<rparr>"

definition c4_further :: Message where
  "c4_further = \<lparr>m_id = 200, m_channel = 3, m_author = 1, m_reactions = [], m_created_at = 10\<rparr>"

definition c4_world :: world where
  "c4_world = (ex_world PENDING)\<lparr>requests := [c4_request],
     remote := [ex_notification, ex_other_message, c4_further],
     cache := [ex_notification, c4_further]\<rparr>"

definition c4_reaction :: payload where
  "c4_reaction = (ex_reaction ''yes'')\<lparr>message_id := 200\<rparr>"

text \<open>A held copy of message 200 that shows both approval markers.\<close>

definition c4_marked :: Message where
  "c4_marked = c4_further\<lparr>m_reactions := [Reaction approved_primary, Reaction approved_other]\<rparr>"

section \<open>Properties of the cross-message synchronizer\<close>

lemma str_in_never: "\<not> str_in s rs"
  by (induction rs) (auto simp: str_in_def elim: str_eq_reaction.elims)

lemma messages_to_mark_all: "messages_to_mark msgs reaction primary_reaction = msgs"
  by (simp add: messages_to_mark_def str_in_never)

lemma no_duplicates_no_messages:
  "further_notification_message_ids r = [] \<and> notification_message_id r = Some n \<and> py_int n = mid
     \<longrightarrow> get_other_request_messages mid r w = (Inr ([], []), w)"
  by (simp add: get_other_request_messages_def other_message_ids_def ret_def)

lemma int_ids_never_collected:
  "filter (\<lambda>v. int_ne (py_int v) v) (map PyInt is) = []"
  by (induction "is") simp_all

lemma str_ids_all_collected:
  "filter (\<lambda>v. int_ne (py_int v) v) (map PyStr is) = map PyStr is"
  by (induction "is") simp_all

text \<open>
  C4. The synchronizer is to mark every notification copy except the message that
  triggered the transition, and to skip copies that already carry a marker. Approving on
  the further notification 200: the collected "other" messages are the cached primary 100
  and the fetched 200, the triggering message itself, and the approval puts the fan-out
  marker on 100 and on 200. A held copy that already shows both markers is not skipped
  either. With the further ids stored as ints instead, no further copy is collected.
\<close>

theorem C4_trigger_not_excluded:
  "fst (get_other_request_messages 200 c4_request c4_world) = Inr ([ex_notification], [c4_further])
   \<and> trace (snd (handle_role_approval ex_config c4_reaction c4_world))
       = [CreateBetaTester 5, AddRoles 7 [50], MemberSend 7 ApprovalNotice,
          AddReaction 200 approved_primary, AddReaction 100 approved_other,
          AddReaction 200 approved_other]
   \<and> messages_to_mark [c4_marked] approved_other approved_primary = [c4_marked]
   \<and> other_message_ids 100
        (c4_request\<lparr>further_notification_message_ids := [PyInt 200, PyInt 300]\<rparr>) = Inr []"
  by code_simp

section \<open>Evaluation rules and basic facts\<close>

lemmas ex_defs = ex_config_def ex_world_def ex_reaction_def ex_request_def ex_tester_def
  ex_member_def ex_moderator_def ex_notification_def ex_app_def ex_other_message_def
  ex_reaction_elsewhere_def ex_config_failing_def

lemmas io_defs = bind_def ret_def raise_def emit_def airtable_def discord_def try_except_def
  try_finally_def task_group_def get_config_def

lemma find_message_id: "find_message ms i = Some m \<Longrightarrow> m_id m = i"
  by (induction ms) (auto split: if_splits)

lemma get_or_fetch_message_Inr:
  "get_or_fetch_message ch i w = (Inr m, w') \<Longrightarrow> w' = w \<and> m_id m = i \<and> ch \<noteq> None"
  by (auto simp: get_or_fetch_message_def fetch_message_def find_message_id split: option.splits)

lemma get_channel_Some: "get_channel c i \<noteq> None \<Longrightarrow> get_channel c i = Some i"
  by (simp add: get_channel_def split: if_splits)

lemma is_approval_channel_world: "is_approval_channel c ch g w = (r, w') \<Longrightarrow> w' = w"
  by (auto simp: is_approval_channel_def io_defs split: if_splits)

lemma check_valid_Some:
  assumes "check_valid_role_reaction_channel c p w = (Inr (Some (g, message)), w')"
  shows "w' = w \<and> get_channel c (channel_id p) = Some (channel_id p)
         \<and> guild_id p = Some g \<and> m_id message = message_id p"
  using assms
  apply (simp add: check_valid_role_reaction_channel_def is_own_message_def bind_def ret_def
      split: option.splits prod.splits sum.splits if_splits)
  apply (auto dest!: is_approval_channel_world get_or_fetch_message_Inr get_channel_Some
      simp: get_guild_def split: if_splits)
  done

lemma ex_check_valid:
  "check_valid_role_reaction_channel ex_config (ex_reaction e) (ex_world s)
     = (Inr (Some (9, ex_notification)), ex_world s)"
  by (simp add: check_valid_role_reaction_channel_def is_approval_channel_def is_own_message_def
      get_or_fetch_message_def get_channel_def get_guild_def io_defs ex_defs)

lemma ex_fetch_request:
  "fetch_request ex_config (message_id (ex_reaction e)) (ex_world s)
     = (Inr (Some (ex_request s)), ex_world s)"
  by (simp add: fetch_request_def request_has_message_def io_defs ex_defs)

section \<open>Conflicting transitions\<close>

text \<open>
  C1. When the approval handler has passed its channel, own-message and emoji checks and
  the request resolved from the message is REJECTED, it replies in the channel and
  returns; when the rejection handler finds the request APPROVED, it replies and reports
  the reaction as handled. In both cases the reply is the only action, and the stored
  requests, testers and members are as before.
\<close>

theorem C1_conflicting_transitions_refused:
  assumes valid: "check_valid_role_reaction_channel c p w = (Inr (Some (g, message)), w)"
    and found: "fetch_request c (message_id p) w = (Inr (Some r), w)"
    and config_ok: "\<not> airtable_fails c OpGetConfig"
  shows "(emoji_name p \<in> set (approval_emojis_cfg c g) \<and> status r = REJECTED \<longrightarrow>
          (\<exists>w'. handle_role_approval c p w = (Inr (), w')
             \<and> trace w' = trace w @ [ChannelSend (channel_id p) PreviouslyRejectedCannotApprove
                                        (Some (message_id p))]
             \<and> requests w' = requests w \<and> testers w' = testers w \<and> members w' = members w))
       \<and> (emoji_name p \<in> set (rejection_emojis_cfg c g) \<and> status r = APPROVED \<longrightarrow>
          (\<exists>w'. handle_role_rejection c p w = (Inr True, w')
             \<and> trace w' = trace w @ [ChannelSend (channel_id p) PreviouslyApprovedCannotReject
                                        (Some (message_id p))]
             \<and> requests w' = requests w \<and> testers w' = testers w \<and> members w' = members w))"
proof -
  from check_valid_Some[OF valid]
  have ch: "get_channel c (channel_id p) = Some (channel_id p)"
    and mid: "m_id message = message_id p"
    by simp_all
  show ?thesis
    using valid found ch mid config_ok
    by (simp add: handle_role_approval_def handle_role_rejection_def bind_def ret_def
        get_approval_emojis_def get_rejection_emojis_def get_config_def airtable_def
        channel_send_def Let_def)
qed

theorem C1_witness:
  "fst (handle_role_approval ex_config (ex_reaction ''yes'') (ex_world REJECTED)) = Inr ()
   \<and> trace (snd (handle_role_approval ex_config (ex_reaction ''yes'') (ex_world REJECTED)))
       = [ChannelSend 3 PreviouslyRejectedCannotApprove (Some 100)]
   \<and> requests (snd (handle_role_approval ex_config (ex_reaction ''yes'') (ex_world REJECTED)))
       = [ex_request REJECTED]
   \<and> fst (handle_role_rejection ex_config (ex_reaction ''no'') (ex_world APPROVED)) = Inr True
   \<and> trace (snd (handle_role_rejection ex_config (ex_reaction ''no'') (ex_world APPROVED)))
       = [ChannelSend 3 PreviouslyApprovedCannotReject (Some 100)]
   \<and> requests (snd (handle_role_rejection ex_config (ex_reaction ''no'') (ex_world APPROVED)))
       = [ex_request APPROVED]"
proof -
  have ok: "\<not> airtable_fails ex_config OpGetConfig"
    by (simp add: ex_config_def)
  have a: "emoji_name (ex_reaction ''yes'') \<in> set (approval_emojis_cfg ex_config 9)
           \<and> status (ex_request REJECTED) = REJECTED"
    by (simp add: ex_defs)
  have b: "emoji_name (ex_reaction ''no'') \<in> set (rejection_emojis_cfg ex_config 9)
           \<and> status (ex_request APPROVED) = APPROVED"
    by (simp add: ex_defs)
  from C1_conflicting_transitions_refused[OF ex_check_valid ex_fetch_request ok, of "''yes''" REJECTED] a
  have "fst (handle_role_approval ex_config (ex_reaction ''yes'') (ex_world REJECTED)) = Inr ()
   \<and> trace (snd (handle_role_approval ex_config (ex_reaction ''yes'') (ex_world REJECTED)))
       = [ChannelSend 3 PreviouslyRejectedCannotApprove (Some 100)]
   \<and> requests (snd (handle_role_approval ex_config (ex_reaction ''yes'') (ex_world REJECTED)))
       = [ex_request REJECTED]"
    by (auto simp add: ex_world_def ex_reaction_def)
  moreover
  from C1_conflicting_transitions_refused[OF ex_check_valid ex_fetch_request ok, of "''no''" APPROVED] b
  have "fst (handle_role_rejection ex_config (ex_reaction ''no'') (ex_world APPROVED)) = Inr True
   \<and> trace (snd (handle_role_rejection ex_config (ex_reaction ''no'') (ex_world APPROVED)))
       = [ChannelSend 3 PreviouslyApprovedCannotReject (Some 100)]
   \<and> requests (snd (handle_role_rejection ex_config (ex_reaction ''no'') (ex_world APPROVED)))
       = [ex_request APPROVED]"
    by (auto simp add: ex_world_def ex_reaction_def)
  ultimately show ?thesis by simp
qed

section \<open>Distribution failures during approval\<close>

lemma channel_send_world:
  "channel_send c (Some ch) t reference w =
     (Inr (new_message c ch w),
      w\<lparr>remote := remote w @ [new_message c ch w], next_id := Suc (next_id w),
        trace := trace w @ [ChannelSend ch t reference]\<rparr>)"
  by (simp add: channel_send_def Let_def)

text \<open>
  C2, as the code has it. Of the three distinguished failures of the add-tester step only
  the invalid-attribute one ends the approval: it is reported to the channel and the
  handler returns without an error, with the report as its only action. A missing API key
  and a missing beta group are reported to the channel as well, and the approval then
  goes on with its remaining steps from the state after the report. An exception of the
  step that is not a distribution error reaches the caller as it is.
\<close>

theorem C2_add_tester_failures:
  assumes ch: "get_channel c (channel_id p) = Some ch" and mem: "member p = Some m"
  shows "(distribution_failure c tstr ap = Some (AppStoreConnectError (InvalidAttributeError d)) \<longrightarrow>
            approve c p message r tstr ap w
              = (Inr (), w\<lparr>remote := remote w @ [new_message c ch w], next_id := Suc (next_id w),
                           trace := trace w @ [ChannelSend ch (InvalidTesterAttribute d)
                                                 (Some (message_id p))]\<rparr>))
       \<and> (distribution_failure c tstr ap = Some (AppStoreConnectError ApiKeyNotSetError) \<longrightarrow>
            approve c p message r tstr ap w
              = complete_approval c p message (status r = APPROVED) (r\<lparr>status := APPROVED\<rparr>) tstr
                  (w\<lparr>remote := remote w @ [new_message c ch w], next_id := Suc (next_id w),
                     trace := trace w @ [ChannelSend ch NoApiKeySet (Some (message_id p))]\<rparr>))
       \<and> (distribution_failure c tstr ap = Some (AppStoreConnectError BetaGroupNotSetError) \<longrightarrow>
            approve c p message r tstr ap w
              = complete_approval c p message (status r = APPROVED) (r\<lparr>status := APPROVED\<rparr>) tstr
                  (w\<lparr>remote := remote w @ [new_message c ch w], next_id := Suc (next_id w),
                     trace := trace w @ [ChannelSend ch NoBetaGroupSet (Some (message_id p))]\<rparr>))
       \<and> (distribution_failure c tstr ap = Some e \<and> (\<forall>x. e \<noteq> AppStoreConnectError x) \<longrightarrow>
            approve c p message r tstr ap w = (Inl e, w))"
  using ch mem
  by (auto simp: approve_def add_tester_to_group_def distribution_failure_def io_defs mention_def
      channel_send_world Let_def split: sum.splits if_splits option.splits exn.splits)

theorem C2_witness:
  "approve (ex_config_failing (AppStoreConnectError (InvalidAttributeError ''email'')))
      (ex_reaction ''yes'') ex_notification (ex_request PENDING) (ex_tester (Some ''t@example.org''))
      ex_app (ex_world PENDING)
     = (Inr (), (ex_world PENDING)\<lparr>remote := [ex_notification, ex_other_message,
                    \<lparr>m_id = 1000, m_channel = 3, m_author = 1, m_reactions = [], m_created_at = 5000\<rparr>],
                  next_id := 1001,
                  trace := [ChannelSend 3 (InvalidTesterAttribute ''email'') (Some 100)]\<rparr>)
   \<and> trace (snd (approve (ex_config_failing (AppStoreConnectError ApiKeyNotSetError))
        (ex_reaction ''yes'') ex_notification (ex_request PENDING)
        (ex_tester (Some ''t@example.org'')) ex_app (ex_world PENDING)))
       = [ChannelSend 3 NoApiKeySet (Some 100), AddRoles 7 [50], MemberSend 7 ApprovalNotice,
          AddReaction 100 approved_primary]
   \<and> trace (snd (approve (ex_config_failing (AppStoreConnectError BetaGroupNotSetError))
        (ex_reaction ''yes'') ex_notification (ex_request PENDING)
        (ex_tester (Some ''t@example.org'')) ex_app (ex_world PENDING)))
       = [ChannelSend 3 NoBetaGroupSet (Some 100), AddRoles 7 [50], MemberSend 7 ApprovalNotice,
          AddReaction 100 approved_primary]
   \<and> approve (ex_config_failing TypeError)
        (ex_reaction ''yes'') ex_notification (ex_request PENDING)
        (ex_tester (Some ''t@example.org'')) ex_app (ex_world PENDING)
       = (Inl TypeError, ex_world PENDING)"
proof -
  have ch: "get_channel (ex_config_failing e) (channel_id (ex_reaction ''yes'')) = Some 3" for e
    by (simp add: get_channel_def ex_defs)
  have mem: "member (ex_reaction ''yes'') = Some ex_moderator"
    by (simp add: ex_reaction_def)
  have f: "distribution_failure (ex_config_failing e) (ex_tester (Some ''t@example.org'')) ex_app = Some e"
    for e
    by (simp add: distribution_failure_def ex_config_failing_def)
  have other: "\<forall>x. TypeError \<noteq> AppStoreConnectError x"
    by simp
  have a: "approve (ex_config_failing (AppStoreConnectError (InvalidAttributeError ''email'')))
      (ex_reaction ''yes'') ex_notification (ex_request PENDING) (ex_tester (Some ''t@example.org''))
      ex_app (ex_world PENDING)
     = (Inr (), (ex_world PENDING)\<lparr>remote := [ex_notification, ex_other_message,
                    \<lparr>m_id = 1000, m_channel = 3, m_author = 1, m_reactions = [], m_created_at = 5000\<rparr>],
                  next_id := 1001,
                  trace := [ChannelSend 3 (InvalidTesterAttribute ''email'') (Some 100)]\<rparr>)"
    using C2_add_tester_failures[OF ch[of "AppStoreConnectError (InvalidAttributeError ''email'')"] mem,
        where tstr = "ex_tester (Some ''t@example.org'')" and ap = ex_app
        and message = ex_notification and r = "ex_request PENDING" and w = "ex_world PENDING" and d = "''email''"] f
    by (simp add: new_message_def ex_world_def ex_reaction_def ex_config_failing_def ex_config_def)
  have b1: "approve (ex_config_failing (AppStoreConnectError ApiKeyNotSetError))
        (ex_reaction ''yes'') ex_notification (ex_request PENDING)
        (ex_tester (Some ''t@example.org'')) ex_app (ex_world PENDING)
      = complete_approval (ex_config_failing (AppStoreConnectError ApiKeyNotSetError))
          (ex_reaction ''yes'') ex_notification (status (ex_request PENDING) = APPROVED)
          ((ex_request PENDING)\<lparr>status := APPROVED\<rparr>) (ex_tester (Some ''t@example.org''))
          ((ex_world PENDING)\<lparr>remote := remote (ex_world PENDING)
                @ [new_message (ex_config_failing (AppStoreConnectError ApiKeyNotSetError)) 3
                     (ex_world PENDING)],
              next_id := Suc (next_id (ex_world PENDING)),
              trace := trace (ex_world PENDING)
                @ [ChannelSend 3 NoApiKeySet (Some (message_id (ex_reaction ''yes'')))]\<rparr>)"
    using C2_add_tester_failures[OF ch[of "AppStoreConnectError ApiKeyNotSetError"] mem,
        where tstr = "ex_tester (Some ''t@example.org'')" and ap = ex_app
        and message = ex_notification and r = "ex_request PENDING" and w = "ex_world PENDING"] f by blast
  have b2: "approve (ex_config_failing (AppStoreConnectError BetaGroupNotSetError))
        (ex_reaction ''yes'') ex_notification (ex_request PENDING)
        (ex_tester (Some ''t@example.org'')) ex_app (ex_world PENDING)
      = complete_approval (ex_config_failing (AppStoreConnectError BetaGroupNotSetError))
          (ex_reaction ''yes'') ex_notification (status (ex_request PENDING) = APPROVED)
          ((ex_request PENDING)\<lparr>status := APPROVED\<rparr>) (ex_tester (Some ''t@example.org''))
          ((ex_world PENDING)\<lparr>remote := remote (ex_world PENDING)
                @ [new_message (ex_config_failing (AppStoreConnectError BetaGroupNotSetError)) 3
                     (ex_world PENDING)],
              next_id := Suc (next_id (ex_world PENDING)),
              trace := trace (ex_world PENDING)
                @ [ChannelSend 3 NoBetaGroupSet (Some (message_id (ex_reaction ''yes'')))]\<rparr>)"
    using C2_add_tester_failures[OF ch[of "AppStoreConnectError BetaGroupNotSetError"] mem,
        where tstr = "ex_tester (Some ''t@example.org'')" and ap = ex_app
        and message = ex_notification and r = "ex_request PENDING" and w = "ex_world PENDING"] f by blast
  have c: "approve (ex_config_failing TypeError)
        (ex_reaction ''yes'') ex_notification (ex_request PENDING)
        (ex_tester (Some ''t@example.org'')) ex_app (ex_world PENDING)
       = (Inl TypeError, ex_world PENDING)"
    using C2_add_tester_failures[OF ch[of "TypeError"] mem,
        where tstr = "ex_tester (Some ''t@example.org'')" and ap = ex_app
        and message = ex_notification and r = "ex_request PENDING" and w = "ex_world PENDING" and e = TypeError] f other by blast
  have v1: "trace (snd (complete_approval (ex_config_failing (AppStoreConnectError ApiKeyNotSetError))
          (ex_reaction ''yes'') ex_notification (status (ex_request PENDING) = APPROVED)
          ((ex_request PENDING)\<lparr>status := APPROVED\<rparr>) (ex_tester (Some ''t@example.org''))
          ((ex_world PENDING)\<lparr>remote := remote (ex_world PENDING)
                @ [new_message (ex_config_failing (AppStoreConnectError ApiKeyNotSetError)) 3
                     (ex_world PENDING)],
              next_id := Suc (next_id (ex_world PENDING)),
              trace := trace (ex_world PENDING)
                @ [ChannelSend 3 NoApiKeySet (Some (message_id (ex_reaction ''yes'')))]\<rparr>)))
       = [ChannelSend 3 NoApiKeySet (Some 100), AddRoles 7 [50], MemberSend 7 ApprovalNotice,
          AddReaction 100 approved_primary]"
    by code_simp
  have v2: "trace (snd (complete_approval (ex_config_failing (AppStoreConnectError BetaGroupNotSetError))
          (ex_reaction ''yes'') ex_notification (status (ex_request PENDING) = APPROVED)
          ((ex_request PENDING)\<lparr>status := APPROVED\<rparr>) (ex_tester (Some ''t@example.org''))
          ((ex_world PENDING)\<lparr>remote := remote (ex_world PENDING)
                @ [new_message (ex_config_failing (AppStoreConnectError BetaGroupNotSetError)) 3
                     (ex_world PENDING)],
              next_id := Suc (next_id (ex_world PENDING)),
              trace := trace (ex_world PENDING)
                @ [ChannelSend 3 NoBetaGroupSet (Some (message_id (ex_reaction ''yes'')))]\<rparr>)))
       = [ChannelSend 3 NoBetaGroupSet (Some 100), AddRoles 7 [50], MemberSend 7 ApprovalNotice,
          AddReaction 100 approved_primary]"
    by code_simp
  show ?thesis
    unfolding b1 b2 using a c v1 v2 by simp
qed

text \<open>
  C2 as stated fails here: with no API key set for the app, the failure is reported
  and the approval is carried through, with role grant, tester notification, persisted
  status and marked message.
\<close>

theorem C2_counterexample:
  "fst (handle_role_approval (ex_config_failing (AppStoreConnectError ApiKeyNotSetError))
          (ex_reaction ''yes'') (ex_world PENDING)) = Inr ()
   \<and> trace (snd (handle_role_approval (ex_config_failing (AppStoreConnectError ApiKeyNotSetError))
                   (ex_reaction ''yes'') (ex_world PENDING)))
       = [ChannelSend 3 NoApiKeySet (Some 100), AddRoles 7 [50], MemberSend 7 ApprovalNotice,
          AddReaction 100 approved_primary]
   \<and> map status (requests (snd (handle_role_approval
         (ex_config_failing (AppStoreConnectError ApiKeyNotSetError)) (ex_reaction ''yes'')
         (ex_world PENDING)))) = [APPROVED]"
  by code_simp

section \<open>Removal without a tester record\<close>

lemma removal_tester_not_found:
  assumes "check_valid_role_reaction_channel c p w = (Inr (Some (g, message)), w)"
    and "\<not> airtable_fails c OpGetConfig" and "\<not> airtable_fails c OpFindTesterByLeaveMessage"
    and "emoji_name p \<in> set (removal_emojis_cfg c g)"
    and "find (\<lambda>t. message_id p \<in> set (leave_message_ids t)) (testers w) = None"
  shows "fst (handle_removal_reaction c p w) = Inr False"
  using assms check_valid_Some[OF assms(1)]
  by (simp add: handle_removal_reaction_def get_removal_emojis_def find_tester_by_leave_message_def
      add_reaction_def channel_send_def io_defs Let_def)

text \<open>
  C6. A removal emoji on the program's own message 100 in the approval channel, where no
  tester record lists 100 among its leave messages: the failure is reported to the
  channel, and the removal handler returns \<^verbatim>\<open>False\<close>, as does \<^verbatim>\<open>handle_reaction\<close>.
  The handler's docstring promises \<^verbatim>\<open>True\<close> for a reaction recognised as a removal
  reaction.
\<close>

theorem C6_tester_not_found_not_handled:
  "fst (handle_removal_reaction ex_config (ex_reaction ''out'') (ex_world APPROVED)) = Inr False
   \<and> trace (snd (handle_removal_reaction ex_config (ex_reaction ''out'') (ex_world APPROVED)))
       = [AddReaction 100 processing_emoji, ChannelSend 3 (FailedToFindTesterForLeave 100) None]
   \<and> fst (handle_reaction ex_config (ex_reaction ''out'') (ex_world APPROVED)) = Inr False"
  by code_simp

section \<open>Reaction router\<close>






lemma clear_processing_marker_ok:
  assumes "get_or_fetch_message (get_channel c (channel_id p)) (message_id p) w = (Inr message, w)"
  shows "clear_processing_marker c p w
           = (Inr (), w\<lparr>remote := remove_reaction_remote (remote w) (message_id p) processing_emoji,
                        trace := trace w @ [RemoveReaction (message_id p) processing_emoji]\<rparr>)"
  using assms get_or_fetch_message_Inr[OF assms]
  by (simp add: clear_processing_marker_def remove_reaction_def io_defs)








section \<open>Cleanup of the processing marker\<close>

lemma messages_kept_refl: "messages_kept w w"
  by (simp add: messages_kept_def)

lemma messages_kept_trans: "messages_kept w w' \<Longrightarrow> messages_kept w' w'' \<Longrightarrow> messages_kept w w''"
  by (simp add: messages_kept_def)

lemma keepsD: "keeps m \<Longrightarrow> m w = (r, w') \<Longrightarrow> messages_kept w w'"
  by (simp add: keeps_def)

lemma keeps_ret: "keeps (ret x)"
  by (simp add: keeps_def ret_def messages_kept_refl)

lemma keeps_raise: "keeps (raise e)"
  by (simp add: keeps_def raise_def messages_kept_refl)

lemma keeps_bind: "keeps m \<Longrightarrow> (\<And>x. keeps (f x)) \<Longrightarrow> keeps (bind m f)"
  unfolding keeps_def bind_def
  by (clarsimp split: prod.splits sum.splits) (blast intro: messages_kept_trans)

lemma keeps_try_except: "keeps m \<Longrightarrow> (\<And>e. keeps (h e)) \<Longrightarrow> keeps (try_except m h)"
  unfolding keeps_def try_except_def
  by (clarsimp split: prod.splits sum.splits) (blast intro: messages_kept_trans)

lemma keeps_task_group: "keeps m \<Longrightarrow> keeps (task_group m)"
  unfolding keeps_def task_group_def
  by (auto split: prod.splits sum.splits)

lemma keeps_airtable: "keeps m \<Longrightarrow> keeps (airtable c op m)"
  by (simp add: airtable_def keeps_raise)

lemma keeps_discord: "keeps m \<Longrightarrow> keeps (discord c op m)"
  by (simp add: discord_def keeps_raise)

lemma keeps_if: "keeps a \<Longrightarrow> keeps b \<Longrightarrow> keeps (if P then a else b)"
  by simp

lemma keeps_case_option:
  "keeps a \<Longrightarrow> (\<And>y. keeps (b y)) \<Longrightarrow> keeps (case x of None \<Rightarrow> a | Some y \<Rightarrow> b y)"
  by (cases x) simp_all

lemma keeps_case_list:
  "keeps a \<Longrightarrow> (\<And>y ys. keeps (b y ys)) \<Longrightarrow> keeps (case x of [] \<Rightarrow> a | y # ys \<Rightarrow> b y ys)"
  by (cases x) simp_all

lemma keeps_case_sum:
  "(\<And>y. keeps (a y)) \<Longrightarrow> (\<And>y. keeps (b y)) \<Longrightarrow> keeps (case x of Inl y \<Rightarrow> a y | Inr y \<Rightarrow> b y)"
  by (cases x) simp_all

lemma keeps_case_prod: "(\<And>a b. keeps (f a b)) \<Longrightarrow> keeps (case x of (a, b) \<Rightarrow> f a b)"
  by (cases x) simp

lemma keeps_world_if: "keeps a \<Longrightarrow> keeps b \<Longrightarrow> keeps (\<lambda>w. if P w then a w else b w)"
  unfolding keeps_def by (auto split: if_splits)

lemma keeps_world_option:
  "keeps a \<Longrightarrow> (\<And>y. keeps (b y)) \<Longrightarrow> keeps (\<lambda>w. (case g w of None \<Rightarrow> a | Some y \<Rightarrow> b y) w)"
  unfolding keeps_def by (auto split: option.splits)

lemma keeps_pure: "keeps (\<lambda>w. (f w, w))"
  by (simp add: keeps_def messages_kept_refl)

lemma keeps_store:
  "keeps (\<lambda>w. (f w, w\<lparr>testers := t w\<rparr>))"
  "keeps (\<lambda>w. (f w, w\<lparr>requests := r w\<rparr>))"
  "keeps (\<lambda>w. (f w, w\<lparr>testers := t w, next_id := n w\<rparr>))"
  "keeps (\<lambda>w. (f w, w\<lparr>requests := r w, next_id := n w\<rparr>))"
  by (simp_all add: keeps_def messages_kept_def)

lemma keeps_emit: "keeps (emit a)"
  by (simp add: keeps_def emit_def messages_kept_def)

lemma find_message_append:
  "find_message ms i = Some y \<Longrightarrow> find_message (ms @ [m]) i = Some y"
  by (induction ms) auto

lemma find_message_add_reaction_remote:
  "find_message ms j = Some y \<Longrightarrow> \<exists>y'. find_message (add_reaction_remote ms i e) j = Some y'"
  by (induction ms) auto

lemma find_message_remove_reaction_remote:
  "find_message ms j = Some y \<Longrightarrow> \<exists>y'. find_message (remove_reaction_remote ms i e) j = Some y'"
  by (induction ms) auto

lemma keeps_channel_send: "keeps (channel_send c ch t reference)"
  by (auto simp: keeps_def channel_send_def messages_kept_def Let_def find_message_append
      split: option.splits)

lemma keeps_member_send: "keeps (member_send c u t)"
  by (auto simp: keeps_def member_send_def messages_kept_def Let_def find_message_append)

lemma keeps_add_reaction: "keeps (add_reaction i e)"
  by (auto simp: keeps_def add_reaction_def messages_kept_def find_message_add_reaction_remote)

lemma keeps_remove_reaction: "keeps (remove_reaction i e)"
  by (auto simp: keeps_def remove_reaction_def messages_kept_def find_message_remove_reaction_remote)

lemma keeps_add_roles: "keeps (add_roles u rs)"
  by (auto simp: keeps_def add_roles_def messages_kept_def)

lemma keeps_fetch_message: "keeps (fetch_message i)"
  by (auto simp: keeps_def fetch_message_def messages_kept_refl split: option.splits)

lemma keeps_get_or_fetch_message: "keeps (get_or_fetch_message ch i)"
  by (auto simp: keeps_def get_or_fetch_message_def fetch_message_def messages_kept_refl
      split: option.splits)

lemma keeps_mention: "keeps (mention m)"
  by (simp add: mention_def keeps_ret keeps_raise split: option.splits)

lemmas keeps_rules = keeps_ret keeps_raise keeps_bind keeps_try_except keeps_task_group
  keeps_airtable keeps_discord keeps_if keeps_case_option keeps_case_list keeps_case_sum
  keeps_case_prod keeps_world_if keeps_world_option keeps_pure keeps_store keeps_emit
  keeps_channel_send keeps_member_send keeps_add_reaction keeps_remove_reaction keeps_add_roles
  keeps_fetch_message keeps_get_or_fetch_message keeps_mention

lemma keeps_store_ops:
  "keeps (find_tester c d)" "keeps (upsert_tester c t)" "keeps (list_requests c u a f x)"
  "keeps (add_request c r)" "keeps (update_request c r)" "keeps (update_requests c rs)"
  "keeps (fetch_request c i)" "keeps (fetch_tester c j)" "keeps (fetch_app c k)"
  "keeps (find_apps_by_beta_group c gs)" "keeps (find_tester_by_leave_message c i)"
  "keeps (get_reaction_role c g i e)" "keeps (list_watched_message_ids c)" "keeps (get_config c v)"
  unfolding find_tester_def upsert_tester_def list_requests_def add_request_def update_request_def
    update_requests_def fetch_request_def fetch_tester_def fetch_app_def find_apps_by_beta_group_def
    find_tester_by_leave_message_def get_reaction_role_def list_watched_message_ids_def
    get_config_def
  by (auto simp: keeps_def messages_kept_def airtable_def raise_def ret_def Let_def
      split: option.splits if_splits)


lemma keeps_add_reactions: "keeps (add_reactions ms e)"
  by (induction ms) (auto intro!: keeps_rules)

lemma keeps_collect_messages: "keeps (collect_messages vs)"
proof (induction vs)
  case Nil
  then show ?case by (simp add: keeps_ret)
next
  case (Cons v vs)
  have a: "keeps (bind (collect_messages vs) (\<lambda>(cs, ns). ret (m # cs, ns)))" for m
    by (intro keeps_rules Cons)
  have b: "keeps (bind (fetch_message (py_int v))
                    (\<lambda>m. bind (collect_messages vs) (\<lambda>(cs, ns). ret (cs, m # ns))))"
    by (intro keeps_rules Cons)
  show ?case
    using a b by (auto simp: keeps_def split: option.splits)
qed

lemma keeps_fetch_apps: "keeps (fetch_apps c is)"
  by (induction "is") (auto intro!: keeps_rules keeps_store_ops)

lemma keeps_delete_from_apps: "keeps (delete_from_apps c t as)"
  by (induction as) (auto intro!: keeps_rules split: option.splits)

lemma keeps_remove_each: "keeps (remove_each c ts)"
  by (induction ts) (auto intro!: keeps_rules keeps_store_ops keeps_delete_from_apps)

lemmas keeps_more = keeps_rules keeps_store_ops keeps_add_reactions keeps_collect_messages
  keeps_fetch_apps keeps_delete_from_apps keeps_remove_each

lemma keeps_get_other_request_messages: "keeps (get_other_request_messages i r)"
  unfolding get_other_request_messages_def by (intro keeps_more)

lemma keeps_mark: "keeps (mark_request_message_approved ms)" "keeps (mark_request_message_rejected ms)"
  unfolding mark_request_message_approved_def mark_request_message_rejected_def
    mark_request_messages_handled_def
  by (intro keeps_more)+

lemma keeps_wrap: "keeps m \<Longrightarrow> keeps (wrap_discord e m)" "keeps m \<Longrightarrow> keeps (wrap_airtable e m)"
  unfolding wrap_discord_def wrap_airtable_def
  by (auto intro!: keeps_more split: exn.splits)

lemma keeps_mark_other_messages:
  "(\<And>ms. keeps (mark ms)) \<Longrightarrow> keeps (mark_other_messages p r mark e)"
  unfolding mark_other_messages_def
  by (intro keeps_wrap keeps_more keeps_get_other_request_messages) auto

lemma keeps_send_request_notification_message:
  "keeps (send_request_notification_message c u t r)"
  unfolding send_request_notification_message_def Let_def
  by (intro keeps_more)

lemma keeps_registration_gate: "keeps rest \<Longrightarrow> keeps (registration_gate c m t rest)"
  unfolding registration_gate_def Let_def send_registration_message_def
  by (intro keeps_more) auto

lemma keeps_request_access: "keeps (request_access c p m g aids)"
  unfolding request_access_def Let_def
  by (intro keeps_more keeps_registration_gate keeps_send_request_notification_message)

lemma keeps_handle_role_reaction: "keeps (handle_role_reaction c p)"
  unfolding handle_role_reaction_def grant_or_request_def rules_not_agreed_def Let_def
  by (intro keeps_more keeps_request_access)

lemma keeps_check_valid: "keeps (check_valid_role_reaction_channel c p)"
  unfolding check_valid_role_reaction_channel_def is_approval_channel_def is_own_message_def
  by (intro keeps_more)

lemma keeps_add_tester_to_group: "keeps (add_tester_to_group c p t a)"
  unfolding add_tester_to_group_def
  by (auto intro!: keeps_more split: exn.splits asc_error.splits)

lemma keeps_grant_roles: "keeps (grant_roles c e r t)"
  unfolding grant_roles_def Let_def
  by (intro keeps_more keeps_wrap)

lemma keeps_complete_approval: "keeps (complete_approval c p m b r t)"
  unfolding complete_approval_def Let_def send_approval_notification_def
  by (intro keeps_more keeps_wrap keeps_mark_other_messages keeps_mark keeps_grant_roles)

lemma keeps_approve: "keeps (approve c p m r t a)"
  unfolding approve_def Let_def
  by (auto intro!: keeps_more keeps_add_tester_to_group keeps_complete_approval
      split: exn.splits asc_error.splits)

lemma keeps_handle_role_approval: "keeps (handle_role_approval c p)"
  unfolding handle_role_approval_def get_approval_emojis_def Let_def
  by (intro keeps_more keeps_check_valid keeps_approve)

lemma keeps_handle_role_rejection: "keeps (handle_role_rejection c p)"
  unfolding handle_role_rejection_def get_rejection_emojis_def Let_def
  by (intro keeps_more keeps_check_valid keeps_wrap keeps_mark_other_messages keeps_mark)

lemma keeps_remove_tester_from_app_store: "keeps (remove_tester_from_app_store c p t)"
  unfolding remove_tester_from_app_store_def
  by (auto intro!: keeps_more split: exn.splits asc_error.splits)

lemma keeps_handle_removal_reaction: "keeps (handle_removal_reaction c p)"
  unfolding handle_removal_reaction_def get_removal_emojis_def
  by (intro keeps_more keeps_check_valid keeps_remove_tester_from_app_store)

lemma keeps_dispatch: "keeps (dispatch c p)"
  unfolding dispatch_def
  by (intro keeps_more keeps_handle_role_reaction keeps_handle_role_approval
      keeps_handle_role_rejection keeps_handle_removal_reaction)

lemma keeps_get_or_fetch_channel: "keeps (get_or_fetch_channel c i)"
  unfolding get_or_fetch_channel_def by (intro keeps_more)

lemma keeps_attempt: "keeps (attempt c p)"
  unfolding attempt_def report_airtable_error_def report_reaction_role_error_def
    is_approval_channel_def
  by (auto intro!: keeps_more keeps_dispatch keeps_get_or_fetch_channel split: exn.splits)


lemma not_carries_after_remove: "\<not> carries (remove_reaction_remote ms i e) i e"
  by (induction ms) (auto simp: carries_def)

lemma get_or_fetch_message_kept:
  assumes "get_or_fetch_message ch i w = (Inr m, w)" and "messages_kept w w'"
  shows "\<exists>m'. get_or_fetch_message ch i w' = (Inr m', w')"
  using assms
  by (auto simp: get_or_fetch_message_def fetch_message_def messages_kept_def split: option.splits)


text \<open>
  C8. For an event whose message can be obtained when it arrives, whatever the
  \<^verbatim>\<open>try\<close> block and its \<^verbatim>\<open>except\<close> clauses end in (a return value, a reported
  store or workflow failure, or an exception that goes on to the caller), the cleanup
  runs last: the outcome is passed on, the final action is the removal of the processing
  marker from the reacted message, and the message no longer carries the marker.
\<close>

theorem C8_processing_marker_cleared:
  assumes "get_or_fetch_message (get_channel c (channel_id p)) (message_id p) w = (Inr message, w)"
  shows "fst (handle_reaction c p w) = fst (attempt c p w)
       \<and> trace (snd (handle_reaction c p w))
           = trace (snd (attempt c p w)) @ [RemoveReaction (message_id p) processing_emoji]
       \<and> \<not> carries (remote (snd (handle_reaction c p w))) (message_id p) processing_emoji"
proof -
  obtain r w1 where a: "attempt c p w = (r, w1)"
    by (cases "attempt c p w") auto
  from keepsD[OF keeps_attempt a] have "messages_kept w w1" .
  from get_or_fetch_message_kept[OF assms this] obtain m'
    where "get_or_fetch_message (get_channel c (channel_id p)) (message_id p) w1 = (Inr m', w1)"
    by blast
  from clear_processing_marker_ok[OF this]
  have "handle_reaction c p w
          = (r, w1\<lparr>remote := remove_reaction_remote (remote w1) (message_id p) processing_emoji,
                   trace := trace w1 @ [RemoveReaction (message_id p) processing_emoji]\<rparr>)"
    by (simp add: handle_reaction_def try_finally_def a)
  then show ?thesis
    by (simp add: a not_carries_after_remove)
qed

theorem C8_witness:
  "fst (handle_reaction ex_config (ex_reaction ''out'') ex_world_left) = Inr True
   \<and> trace (snd (handle_reaction ex_config (ex_reaction ''out'') ex_world_left))
       = [AddReaction 100 processing_emoji, ChannelSend 3 FoundNoTestersWithEmail (Some 100),
          AddReaction 100 door_emoji, RemoveReaction 100 processing_emoji]
   \<and> \<not> carries (remote (snd (handle_reaction ex_config (ex_reaction ''out'') ex_world_left)))
         100 processing_emoji
   \<and> fst (handle_reaction (ex_config_store_failing OpFindTesterByLeaveMessage)
             (ex_reaction ''out'') ex_world_left) = Inr False
   \<and> trace (snd (handle_reaction (ex_config_store_failing OpFindTesterByLeaveMessage)
                   (ex_reaction ''out'') ex_world_left))
       = [AddReaction 100 processing_emoji, ChannelSend 3 FailedToHandleReaction (Some 100),
          RemoveReaction 100 processing_emoji]
   \<and> fst (handle_reaction (ex_config_store_failing OpUpdateRequest)
             (ex_reaction ''no'') (ex_world PENDING)) = Inr True
   \<and> trace (snd (handle_reaction (ex_config_store_failing OpUpdateRequest)
                   (ex_reaction ''no'') (ex_world PENDING)))
       = [ChannelSend 3 (ErrorReport FailedToMarkRejectedInAirtable (Some 2)) (Some 100),
          RemoveReaction 100 processing_emoji]
   \<and> fst (handle_reaction (ex_config_failing (AppStoreConnectError (InvalidAttributeError ''email'')))
             (ex_reaction ''out'') ex_world_left)
       = Inl (AppStoreConnectError (InvalidAttributeError ''email''))
   \<and> trace (snd (handle_reaction
                   (ex_config_failing (AppStoreConnectError (InvalidAttributeError ''email'')))
                   (ex_reaction ''out'') ex_world_left))
       = [AddReaction 100 processing_emoji,
          ChannelSend 3 (InvalidTesterAttribute ''email'') (Some 100),
          RemoveReaction 100 processing_emoji]"
proof -
  have mid: "message_id (ex_reaction e) = 100" for e
    by (simp add: ex_reaction_def)
  have h1: "get_or_fetch_message (get_channel ex_config (channel_id (ex_reaction ''out'')))
              (message_id (ex_reaction ''out'')) ex_world_left = (Inr ex_notification, ex_world_left)"
    by code_simp
  have v1: "fst (attempt ex_config (ex_reaction ''out'') ex_world_left) = Inr True
    \<and> trace (snd (attempt ex_config (ex_reaction ''out'') ex_world_left))
        = [AddReaction 100 processing_emoji, ChannelSend 3 FoundNoTestersWithEmail (Some 100),
           AddReaction 100 door_emoji]"
    by code_simp
  have h2: "get_or_fetch_message
              (get_channel (ex_config_store_failing OpFindTesterByLeaveMessage)
                 (channel_id (ex_reaction ''out'')))
              (message_id (ex_reaction ''out'')) ex_world_left = (Inr ex_notification, ex_world_left)"
    by code_simp
  have v2: "fst (attempt (ex_config_store_failing OpFindTesterByLeaveMessage)
                   (ex_reaction ''out'') ex_world_left) = Inr False
    \<and> trace (snd (attempt (ex_config_store_failing OpFindTesterByLeaveMessage)
                     (ex_reaction ''out'') ex_world_left))
        = [AddReaction 100 processing_emoji, ChannelSend 3 FailedToHandleReaction (Some 100)]"
    by code_simp
  have h3: "get_or_fetch_message
              (get_channel (ex_config_store_failing OpUpdateRequest) (channel_id (ex_reaction ''no'')))
              (message_id (ex_reaction ''no'')) (ex_world PENDING)
            = (Inr ex_notification, ex_world PENDING)"
    by code_simp
  have v3: "fst (attempt (ex_config_store_failing OpUpdateRequest)
                   (ex_reaction ''no'') (ex_world PENDING)) = Inr True
    \<and> trace (snd (attempt (ex_config_store_failing OpUpdateRequest)
                     (ex_reaction ''no'') (ex_world PENDING)))
        = [ChannelSend 3 (ErrorReport FailedToMarkRejectedInAirtable (Some 2)) (Some 100)]"
    by code_simp
  have h4: "get_or_fetch_message
              (get_channel (ex_config_failing (AppStoreConnectError (InvalidAttributeError ''email'')))
                 (channel_id (ex_reaction ''out'')))
              (message_id (ex_reaction ''out'')) ex_world_left = (Inr ex_notification, ex_world_left)"
    by code_simp
  have v4: "fst (attempt (ex_config_failing (AppStoreConnectError (InvalidAttributeError ''email'')))
                   (ex_reaction ''out'') ex_world_left)
              = Inl (AppStoreConnectError (InvalidAttributeError ''email''))
    \<and> trace (snd (attempt (ex_config_failing (AppStoreConnectError (InvalidAttributeError ''email'')))
                     (ex_reaction ''out'') ex_world_left))
        = [AddReaction 100 processing_emoji,
           ChannelSend 3 (InvalidTesterAttribute ''email'') (Some 100)]"
    by code_simp
  show ?thesis
    using C8_processing_marker_cleared[OF h1] C8_processing_marker_cleared[OF h2]
      C8_processing_marker_cleared[OF h3] C8_processing_marker_cleared[OF h4] v1 v2 v3 v4
    by (simp add: mid)
qed

section \<open>Order of the handlers\<close>





section \<open>Creation path\<close>

lemma find_tester_in_id: "find_tester_in ts d = Some t \<Longrightarrow> discord_id t = d"
  by (induction ts) (auto split: if_splits)

lemma replace_request_fresh:
  "\<forall>x \<in> set rs. r_id x \<noteq> r_id r \<Longrightarrow> replace_request (rs @ [r']) r = rs @ (if r_id r' = r_id r then [r] else [r'])"
  by (induction rs) auto

lemma send_notification_sent:
  assumes "\<forall>op. \<not> airtable_fails c op" and "approval_channel_for c r = Some ch"
  shows "send_request_notification_message c u t r w
     = (Inr (), w\<lparr>remote := remote w @ [new_message c ch w], next_id := Suc (next_id w),
                  trace := trace w @ [ChannelSend ch (RequestNotification (r_id r) (notification_message_id r \<noteq> None)) None],
                  requests := replace_request (requests w)
                     (if notification_message_id r = None
                      then r\<lparr>notification_message_id := Some (PyInt (next_id w))\<rparr>
                      else add_further_notification_message_id r (next_id w))\<rparr>)"
  using assms
  by (auto simp: send_request_notification_message_def approval_channel_for_def io_defs Let_def
      channel_send_def update_request_def new_message_def get_channel_def
      split: option.splits if_splits)


lemma replace_request_length: "length (replace_request rs r) = length rs"
  by (induction rs) auto

lemma upsert_found:
  assumes "\<not> airtable_fails c OpUpsertTester" and "find_tester_in (testers w) (discord_id t) = Some old"
  shows "upsert_tester c t w = (Inr (t\<lparr>t_id := t_id old\<rparr>),
           w\<lparr>testers := replace_tester (testers w) (t\<lparr>t_id := t_id old\<rparr>)\<rparr>)"
  using assms by (simp add: upsert_tester_def airtable_def Let_def)

lemma upsert_new:
  assumes "\<not> airtable_fails c OpUpsertTester" and "find_tester_in (testers w) (discord_id t) = None"
  shows "upsert_tester c t w = (Inr (t\<lparr>t_id := Some (next_id w)\<rparr>),
           w\<lparr>testers := testers w @ [t\<lparr>t_id := Some (next_id w)\<rparr>], next_id := Suc (next_id w)\<rparr>)"
  using assms by (simp add: upsert_tester_def airtable_def Let_def)

lemma request_access_with_tester:
  assumes ok: "\<forall>op. \<not> airtable_fails c op"
    and found: "find_tester_in (testers w) (mem_id m) = Some t0"
  shows "request_access c p m g aids w =
     (let tstr = t0\<lparr>username := mem_name m, discord_id := mem_id m\<rparr>;
          wu = w\<lparr>testers := replace_tester (testers w) tstr\<rparr>
      in (case filter (request_matches (mem_id m) (Some aids) FilterAll True) (requests w) of
            [] \<Rightarrow>
              (case aids of
                 [] \<Rightarrow> raise IndexError
               | a # _ \<Rightarrow>
                   bind (add_request c (new_testing_request (t_id tstr) (mem_id m) a g))
                     (\<lambda>testing_request.
                        registration_gate c m tstr
                          (send_request_notification_message c m tstr testing_request)))
          | oldest_existing_request # rest \<Rightarrow>
              if \<exists>r \<in> set (oldest_existing_request # rest). status r = REJECTED then ret ()
              else registration_gate c m tstr
                     (send_request_notification_message c m tstr oldest_existing_request)) wu)"
  using ok found upsert_found[where c = c and w = w and old = t0
      and t = "t0\<lparr>username := mem_name m, discord_id := mem_id m\<rparr>"]
  by (simp add: request_access_def find_tester_def list_requests_def airtable_def bind_def Let_def
      split: list.splits)

lemma request_access_new_tester:
  assumes ok: "\<forall>op. \<not> airtable_fails c op"
    and found: "find_tester_in (testers w) (mem_id m) = None"
  shows "request_access c p m g aids w =
     (let tstr = \<lparr>t_id = Some (next_id w), username = mem_name m, discord_id = mem_id m,
                   email = None, registration_message_id = None, leave_message_ids = []\<rparr>;
          wu = w\<lparr>testers := testers w @ [tstr], next_id := Suc (next_id w)\<rparr>
      in (case filter (request_matches (mem_id m) (Some aids) FilterAll True) (requests w) of
            [] \<Rightarrow>
              (case aids of
                 [] \<Rightarrow> raise IndexError
               | a # _ \<Rightarrow>
                   bind (add_request c (new_testing_request (t_id tstr) (mem_id m) a g))
                     (\<lambda>testing_request.
                        registration_gate c m tstr
                          (send_request_notification_message c m tstr testing_request)))
          | oldest_existing_request # rest \<Rightarrow>
              if \<exists>r \<in> set (oldest_existing_request # rest). status r = REJECTED then ret ()
              else registration_gate c m tstr
                     (send_request_notification_message c m tstr oldest_existing_request)) wu)"
  using ok found upsert_new[where c = c and w = w
      and t = "\<lparr>t_id = None, username = mem_name m, discord_id = mem_id m,
                email = None, registration_message_id = None, leave_message_ids = []\<rparr>"]
  by (simp add: request_access_def find_tester_def list_requests_def airtable_def bind_def Let_def
      split: list.splits)


lemma registration_gate_requests:
  "no_email t \<Longrightarrow> requests (snd (registration_gate c m t rest w)) = requests w"
  by (auto simp: registration_gate_def send_registration_message_def member_send_def
      upsert_tester_def fetch_message_def io_defs Let_def split: option.splits)

lemma registration_gate_email:
  "\<not> no_email t \<Longrightarrow> registration_gate c m t rest = rest"
  by (simp add: registration_gate_def)

lemma send_notification_requests:
  assumes "\<forall>op. \<not> airtable_fails c op"
  shows "requests (snd (send_request_notification_message c u t r w)) = requests w
       \<or> requests (snd (send_request_notification_message c u t r w))
            = replace_request (requests w)
                (if notification_message_id r = None
                 then r\<lparr>notification_message_id := Some (PyInt (next_id w))\<rparr>
                 else add_further_notification_message_id r (next_id w))"
proof (cases "approval_channel_for c r")
  case None
  then show ?thesis
    using assms
    by (auto simp: send_request_notification_message_def approval_channel_for_def io_defs Let_def
        channel_send_def split: option.splits)
next
  case (Some ch)
  show ?thesis
    by (simp add: send_notification_sent[OF assms Some])
qed

lemma created_request_stays:
  assumes ok: "\<forall>op. \<not> airtable_fails c op"
    and fresh: "\<not> no_email t \<longrightarrow> (\<forall>x \<in> set rs. r_id x \<noteq> r_id r)"
    and none: "notification_message_id r = None"
    and rs: "requests w = rs @ [r]"
  shows "\<exists>r'. requests (snd (registration_gate c m t (send_request_notification_message c m t r) w))
               = rs @ [r'] \<and> status r' = status r \<and> app r' = app r
             \<and> tester_discord_id r' = tester_discord_id r"
proof (cases "no_email t")
  case True
  then show ?thesis
    by (simp add: registration_gate_requests rs)
next
  case False
  with fresh have f: "\<forall>x \<in> set rs. r_id x \<noteq> r_id r" by simp
  from send_notification_requests[OF ok, of m t r w]
  show ?thesis
    using False none f
    by (auto simp: registration_gate_email rs replace_request_fresh)
qed


lemma request_created:
  assumes ok: "\<forall>op. \<not> airtable_fails c op"
    and empty: "filter (request_matches (mem_id m) (Some (a # as)) FilterAll True) (requests w) = []"
    and fresh: "fresh_ids w"
  shows "\<exists>r'. requests (snd (request_access c p m g (a # as) w)) = requests w @ [r']
             \<and> status r' = PENDING \<and> app r' = a \<and> tester_discord_id r' = mem_id m"
proof (cases "find_tester_in (testers w) (mem_id m)")
  case None
  define tstr where "tstr = \<lparr>t_id = Some (next_id w), username = mem_name m, discord_id = mem_id m,
                   email = None, registration_message_id = None, leave_message_ids = []\<rparr>"
  define r where "r = (new_testing_request (t_id tstr) (mem_id m) a g)\<lparr>r_id := Some (Suc (next_id w))\<rparr>"
  define wa where "wa = w\<lparr>testers := testers w @ [tstr], next_id := Suc (next_id w),
                          requests := requests w @ [r], next_id := Suc (Suc (next_id w))\<rparr>"
  have step: "request_access c p m g (a # as) w
      = registration_gate c m tstr (send_request_notification_message c m tstr r) wa"
    using ok empty
    by (simp add: request_access_new_tester[OF ok None] Let_def tstr_def[symmetric] add_request_def
        airtable_def bind_def r_def wa_def)
  have ne: "no_email tstr" by (simp add: tstr_def no_email_def)
  from created_request_stays[OF ok, where t = tstr and rs = "requests w" and r = r and w = wa and m = m]
  show ?thesis
    using ne by (simp add: step r_def new_testing_request_def wa_def)
next
  case (Some t0)
  define tstr where "tstr = t0\<lparr>username := mem_name m, discord_id := mem_id m\<rparr>"
  define r where "r = (new_testing_request (t_id tstr) (mem_id m) a g)\<lparr>r_id := Some (next_id w)\<rparr>"
  define wa where "wa = w\<lparr>testers := replace_tester (testers w) tstr,
                          requests := requests w @ [r], next_id := Suc (next_id w)\<rparr>"
  have step: "request_access c p m g (a # as) w
      = registration_gate c m tstr (send_request_notification_message c m tstr r) wa"
    using ok empty
    by (simp add: request_access_with_tester[OF ok Some] Let_def tstr_def[symmetric] add_request_def
        airtable_def bind_def r_def wa_def)
  have f: "\<forall>x \<in> set (requests w). r_id x \<noteq> r_id r"
    using fresh by (simp add: fresh_ids_def r_def)
  from created_request_stays[OF ok, where t = tstr and rs = "requests w" and r = r and w = wa and m = m] f
  show ?thesis
    by (simp add: step r_def new_testing_request_def wa_def)
qed

lemma registration_gate_trace:
  "no_email t \<Longrightarrow> trace w = tr \<Longrightarrow>
   at_most_prompt (mem_id m) tr (trace (snd (registration_gate c m t rest w)))"
  by (auto simp: registration_gate_def send_registration_message_def member_send_def
      upsert_tester_def fetch_message_def io_defs Let_def at_most_prompt_def split: option.splits)

lemma at_most_prompt_refl: "at_most_prompt u tr tr"
  by (simp add: at_most_prompt_def)

lemma gate_requests_length:
  assumes ok: "\<forall>op. \<not> airtable_fails c op"
  shows "length (requests (snd (registration_gate c m t (send_request_notification_message c m t r) w)))
           = length (requests w)"
proof (cases "no_email t")
  case True
  then show ?thesis by (simp add: registration_gate_requests)
next
  case False
  from send_notification_requests[OF ok, of m t r w] show ?thesis
    using False by (auto simp: registration_gate_email replace_request_length)
qed

lemma no_new_request:
  assumes ok: "\<forall>op. \<not> airtable_fails c op"
    and listing: "filter (request_matches (mem_id m) (Some aids) FilterAll True) (requests w) = r0 # rest"
  shows "length (requests (snd (request_access c p m g aids w))) = length (requests w)"
proof (cases "find_tester_in (testers w) (mem_id m)")
  case None
  show ?thesis
    using listing gate_requests_length[OF ok]
    by (simp add: request_access_new_tester[OF ok None] Let_def ret_def)
next
  case (Some t0)
  show ?thesis
    using listing gate_requests_length[OF ok]
    by (simp add: request_access_with_tester[OF ok Some] Let_def ret_def)
qed

lemma no_email_no_notification:
  assumes ok: "\<forall>op. \<not> airtable_fails c op"
    and ne: "find_tester_in (testers w) (mem_id m) = None
       \<or> (find_tester_in (testers w) (mem_id m) = Some t0 \<and> no_email t0)"
  shows "at_most_prompt (mem_id m) (trace w) (trace (snd (request_access c p m g aids w)))"
proof (cases "find_tester_in (testers w) (mem_id m)")
  case None
  define tstr where "tstr = \<lparr>t_id = Some (next_id w), username = mem_name m, discord_id = mem_id m,
                   email = None, registration_message_id = None, leave_message_ids = []\<rparr>"
  have e: "no_email tstr" by (simp add: tstr_def no_email_def)
  show ?thesis
    using ok
    by (simp add: request_access_new_tester[OF ok None] Let_def tstr_def[symmetric] io_defs
        add_request_def registration_gate_trace[OF e] at_most_prompt_refl split: list.splits)
next
  case (Some t0')
  with ne have t0: "t0' = t0" "no_email t0" by simp_all
  define tstr where "tstr = t0\<lparr>username := mem_name m, discord_id := mem_id m\<rparr>"
  have e: "no_email tstr" using t0 by (simp add: tstr_def no_email_def)
  have found: "find_tester_in (testers w) (mem_id m) = Some t0" using Some t0 by simp
  show ?thesis
    using ok
    by (simp add: request_access_with_tester[OF ok found] Let_def tstr_def[symmetric] io_defs
        add_request_def registration_gate_trace[OF e] at_most_prompt_refl split: list.splits)
qed

text \<open>
  C3, as the code has it. With the store answering, \<^verbatim>\<open>existing\<close> is the listing of
  the tester's non-removed requests for the role's apps. If it is empty, a new PENDING
  request for the first app is stored. If some listed request is REJECTED, the handler
  returns with no request added and nothing sent. Otherwise no request is added. A
  notification follows only for a tester with an email on file: for the new request when
  the guild's default approval channel resolves, and in the third case for the first
  listed request, which the source calls the oldest, when its approval channel resolves.
  For a tester without an email on file nothing is sent to a channel; at most the
  registration prompt goes to the member.
\<close>

theorem C3_creation_branches:
  assumes ok: "\<forall>op. \<not> airtable_fails c op"
    and existing: "existing = filter (request_matches (mem_id m) (Some aids) FilterAll True) (requests w)"
  shows "(existing = [] \<and> aids = a # as \<and> fresh_ids w \<longrightarrow>
          butlast (requests (snd (request_access c p m g aids w))) = requests w
          \<and> status (last (requests (snd (request_access c p m g aids w)))) = PENDING
          \<and> app (last (requests (snd (request_access c p m g aids w)))) = a
          \<and> tester_discord_id (last (requests (snd (request_access c p m g aids w)))) = mem_id m)
       \<and> (existing = [] \<and> aids = a # as \<and> find_tester_in (testers w) (mem_id m) = Some t0
            \<and> \<not> no_email t0 \<and> fresh_ids w
            \<and> default_approvals_channel_id c (Some g) = Some ch \<and> get_channel c ch = Some ch \<longrightarrow>
          fst (request_access c p m g aids w) = Inr ()
          \<and> requests (snd (request_access c p m g aids w))
              = requests w @ [(new_testing_request (t_id t0) (mem_id m) a g)
                               \<lparr>r_id := Some (next_id w),
                                notification_message_id := Some (PyInt (Suc (next_id w)))\<rparr>]
          \<and> status (last (requests (snd (request_access c p m g aids w)))) = PENDING
          \<and> trace (snd (request_access c p m g aids w))
              = trace w @ [ChannelSend ch (RequestNotification (Some (next_id w)) False) None])
       \<and> ((\<exists>r \<in> set existing. status r = REJECTED) \<longrightarrow>
          fst (request_access c p m g aids w) = Inr ()
          \<and> requests (snd (request_access c p m g aids w)) = requests w
          \<and> remote (snd (request_access c p m g aids w)) = remote w
          \<and> trace (snd (request_access c p m g aids w)) = trace w)
       \<and> (existing = r0 # rest \<and> (\<forall>r \<in> set existing. status r \<noteq> REJECTED)
            \<and> find_tester_in (testers w) (mem_id m) = Some t0 \<and> \<not> no_email t0
            \<and> approval_channel_for c r0 = Some ch \<longrightarrow>
          fst (request_access c p m g aids w) = Inr ()
          \<and> length (requests (snd (request_access c p m g aids w))) = length (requests w)
          \<and> trace (snd (request_access c p m g aids w))
              = trace w @ [ChannelSend ch (RequestNotification (r_id r0)
                                            (notification_message_id r0 \<noteq> None)) None])
       \<and> (existing = r0 # rest \<and> (\<forall>r \<in> set existing. status r \<noteq> REJECTED) \<longrightarrow>
          length (requests (snd (request_access c p m g aids w))) = length (requests w))
       \<and> (find_tester_in (testers w) (mem_id m) = None
            \<or> (find_tester_in (testers w) (mem_id m) = Some t0 \<and> no_email t0) \<longrightarrow>
          at_most_prompt (mem_id m) (trace w) (trace (snd (request_access c p m g aids w))))"
proof (intro conjI impI)
  assume h: "existing = [] \<and> aids = a # as \<and> fresh_ids w"
  with existing have "filter (request_matches (mem_id m) (Some (a # as)) FilterAll True) (requests w) = []"
    by simp
  from request_created[OF ok this, of p g] h obtain r'
    where "requests (snd (request_access c p m g aids w)) = requests w @ [r']"
      and "status r' = PENDING" and "app r' = a" and "tester_discord_id r' = mem_id m"
    by auto
  then show "butlast (requests (snd (request_access c p m g aids w))) = requests w"
    and "status (last (requests (snd (request_access c p m g aids w)))) = PENDING"
    and "app (last (requests (snd (request_access c p m g aids w)))) = a"
    and "tester_discord_id (last (requests (snd (request_access c p m g aids w)))) = mem_id m"
    by simp_all
next
  assume h: "existing = [] \<and> aids = a # as \<and> find_tester_in (testers w) (mem_id m) = Some t0
            \<and> \<not> no_email t0 \<and> fresh_ids w
            \<and> default_approvals_channel_id c (Some g) = Some ch \<and> get_channel c ch = Some ch"
  define tstr where "tstr = t0\<lparr>username := mem_name m, discord_id := mem_id m\<rparr>"
  define r' where "r' = (new_testing_request (t_id t0) (mem_id m) a g)\<lparr>r_id := Some (next_id w)\<rparr>"
  define wa where "wa = w\<lparr>testers := replace_tester (testers w) tstr,
                          requests := requests w @ [r'], next_id := Suc (next_id w)\<rparr>"
  have em: "\<not> no_email tstr"
    using h by (simp add: tstr_def no_email_def)
  have chan: "approval_channel_for c r' = Some ch"
    using h by (simp add: approval_channel_for_def r'_def new_testing_request_def)
  have tid: "t_id tstr = t_id t0"
    by (simp add: tstr_def)
  have step: "request_access c p m g aids w = send_request_notification_message c m tstr r' wa"
    using h existing[symmetric] ok em tid
    by (simp add: request_access_with_tester[OF ok] Let_def tstr_def[symmetric] add_request_def
        airtable_def bind_def registration_gate_def r'_def wa_def new_testing_request_def)
  have fresh: "\<forall>x \<in> set (requests w). r_id x \<noteq> Some (next_id w)"
    using h by (simp add: fresh_ids_def)
  have res: "request_access c p m g aids w
     = (Inr (), wa\<lparr>remote := remote wa @ [new_message c ch wa], next_id := Suc (next_id wa),
                   trace := trace wa @ [ChannelSend ch (RequestNotification (Some (next_id w)) False) None],
                   requests := requests w @ [r'\<lparr>notification_message_id := Some (PyInt (Suc (next_id w)))\<rparr>]\<rparr>)"
    unfolding step send_notification_sent[OF ok chan]
    using fresh
    by (simp add: r'_def new_testing_request_def wa_def replace_request_fresh)
  show "fst (request_access c p m g aids w) = Inr ()"
    by (simp add: res)
  show "requests (snd (request_access c p m g aids w))
              = requests w @ [(new_testing_request (t_id t0) (mem_id m) a g)
                               \<lparr>r_id := Some (next_id w),
                                notification_message_id := Some (PyInt (Suc (next_id w)))\<rparr>]"
    by (simp add: res r'_def)
  show "status (last (requests (snd (request_access c p m g aids w)))) = PENDING"
    by (simp add: res r'_def new_testing_request_def)
  show "trace (snd (request_access c p m g aids w))
              = trace w @ [ChannelSend ch (RequestNotification (Some (next_id w)) False) None]"
    by (simp add: res wa_def)
next
  assume h: "\<exists>r \<in> set existing. status r = REJECTED"
  then obtain x xs where ex: "existing = x # xs"
    by (cases existing) auto
  have "fst (request_access c p m g aids w) = Inr ()
          \<and> requests (snd (request_access c p m g aids w)) = requests w
          \<and> remote (snd (request_access c p m g aids w)) = remote w
          \<and> trace (snd (request_access c p m g aids w)) = trace w"
  proof (cases "find_tester_in (testers w) (mem_id m)")
    case None
    show ?thesis
      using h ex existing[symmetric]
      by (simp add: request_access_new_tester[OF ok None] Let_def ret_def)
  next
    case (Some t0)
    show ?thesis
      using h ex existing[symmetric]
      by (simp add: request_access_with_tester[OF ok Some] Let_def ret_def)
  qed
  then show "fst (request_access c p m g aids w) = Inr ()"
    and "requests (snd (request_access c p m g aids w)) = requests w"
    and "remote (snd (request_access c p m g aids w)) = remote w"
    and "trace (snd (request_access c p m g aids w)) = trace w"
    by simp_all
next
  assume h: "existing = r0 # rest \<and> (\<forall>r \<in> set existing. status r \<noteq> REJECTED)
            \<and> find_tester_in (testers w) (mem_id m) = Some t0 \<and> \<not> no_email t0
            \<and> approval_channel_for c r0 = Some ch"
  define tstr where "tstr = t0\<lparr>username := mem_name m, discord_id := mem_id m\<rparr>"
  define wu where "wu = w\<lparr>testers := replace_tester (testers w) tstr\<rparr>"
  have em: "\<not> no_email tstr"
    using h by (simp add: tstr_def no_email_def)
  from h have chan: "approval_channel_for c r0 = Some ch" by simp
  have step: "request_access c p m g aids w = send_request_notification_message c m tstr r0 wu"
    using h existing[symmetric] em
    by (simp add: request_access_with_tester[OF ok] Let_def tstr_def[symmetric] registration_gate_def
        wu_def)
  show "fst (request_access c p m g aids w) = Inr ()"
    and "length (requests (snd (request_access c p m g aids w))) = length (requests w)"
    and "trace (snd (request_access c p m g aids w))
              = trace w @ [ChannelSend ch (RequestNotification (r_id r0)
                                            (notification_message_id r0 \<noteq> None)) None]"
    unfolding step send_notification_sent[OF ok chan]
    by (simp_all add: wu_def replace_request_length)
next
  assume "existing = r0 # rest \<and> (\<forall>r \<in> set existing. status r \<noteq> REJECTED)"
  with existing
  have "filter (request_matches (mem_id m) (Some aids) FilterAll True) (requests w) = r0 # rest"
    by simp
  from no_new_request[OF ok this]
  show "length (requests (snd (request_access c p m g aids w))) = length (requests w)" .
next
  assume "find_tester_in (testers w) (mem_id m) = None
            \<or> (find_tester_in (testers w) (mem_id m) = Some t0 \<and> no_email t0)"
  from no_email_no_notification[OF ok this]
  show "at_most_prompt (mem_id m) (trace w) (trace (snd (request_access c p m g aids w)))" .
qed

theorem C3_witness:
  "handle_role_reaction ex_config ex_role_reaction ex_world_no_requests
     = request_access ex_config ex_role_reaction ex_member 9 [5] ex_world_no_requests
   \<and> map status (requests (snd (request_access ex_config ex_role_reaction ex_member 9 [5]
                                   ex_world_no_requests))) = [PENDING]
   \<and> trace (snd (request_access ex_config ex_role_reaction ex_member 9 [5] ex_world_no_requests))
       = [ChannelSend 3 (RequestNotification (Some 1000) False) None]
   \<and> requests (snd (request_access ex_config ex_role_reaction ex_member 9 [5] (ex_world REJECTED)))
       = [ex_request REJECTED]
   \<and> trace (snd (request_access ex_config ex_role_reaction ex_member 9 [5] (ex_world REJECTED))) = []
   \<and> length (requests (snd (request_access ex_config ex_role_reaction ex_member 9 [5]
                               (ex_world PENDING)))) = 1
   \<and> trace (snd (request_access ex_config ex_role_reaction ex_member 9 [5] (ex_world PENDING)))
       = [ChannelSend 3 (RequestNotification (Some 30) True) None]
   \<and> length (requests (snd (request_access ex_config ex_role_reaction ex_member 9 [5]
                               ex_world_prompted))) = 1
   \<and> at_most_prompt 7 [] (trace (snd (request_access ex_config ex_role_reaction ex_member 9 [5]
                                       ex_world_empty)))"
proof -
  have ok: "\<forall>op. \<not> airtable_fails ex_config op"
    by (simp add: ex_config_def)
  have path: "handle_role_reaction ex_config ex_role_reaction ex_world_no_requests
     = request_access ex_config ex_role_reaction ex_member 9 [5] ex_world_no_requests"
    by code_simp
  have l0: "[] = filter (request_matches (mem_id ex_member) (Some [5]) FilterAll True)
                   (requests ex_world_no_requests)"
    by code_simp
  have l1: "[ex_request s] = filter (request_matches (mem_id ex_member) (Some [5]) FilterAll True)
                   (requests (ex_world s))" for s
    by (simp add: ex_defs request_matches_def)
  have h0: "[] = ([]::TestingRequest list) \<and> [5] = 5 # []
      \<and> find_tester_in (testers ex_world_no_requests) (mem_id ex_member)
           = Some (ex_tester (Some ''t@example.org''))
      \<and> \<not> no_email (ex_tester (Some ''t@example.org'')) \<and> fresh_ids ex_world_no_requests
      \<and> default_approvals_channel_id ex_config (Some 9) = Some 3 \<and> get_channel ex_config 3 = Some 3"
    by (simp add: ex_world_no_requests_def ex_defs no_email_def fresh_ids_def get_channel_def)
  have h1: "\<exists>r \<in> set [ex_request REJECTED]. status r = REJECTED"
    by (simp add: ex_request_def)
  have h2: "[ex_request PENDING] = ex_request PENDING # []
      \<and> (\<forall>r \<in> set [ex_request PENDING]. status r \<noteq> REJECTED)
      \<and> find_tester_in (testers (ex_world PENDING)) (mem_id ex_member)
           = Some (ex_tester (Some ''t@example.org''))
      \<and> \<not> no_email (ex_tester (Some ''t@example.org''))
      \<and> approval_channel_for ex_config (ex_request PENDING) = Some 3"
    by (simp add: ex_defs no_email_def approval_channel_for_def get_channel_def)
  have v: "next_id ex_world_no_requests = 1000" "requests ex_world_no_requests = []"
    "trace ex_world_no_requests = []" "requests (ex_world s) = [ex_request s]"
    "trace (ex_world s) = []" "r_id (ex_request s) = Some 30"
    "notification_message_id (ex_request s) \<noteq> None" for s
    by (simp_all add: ex_world_no_requests_def ex_defs)
  from C3_creation_branches[OF ok l0, where p = ex_role_reaction and g = 9 and a = 5 and as = "[]"
      and ?t0.0 = "ex_tester (Some ''t@example.org'')" and ch = 3] h0
  have a: "map status (requests (snd (request_access ex_config ex_role_reaction ex_member 9 [5]
                                   ex_world_no_requests))) = [PENDING]
   \<and> trace (snd (request_access ex_config ex_role_reaction ex_member 9 [5] ex_world_no_requests))
       = [ChannelSend 3 (RequestNotification (Some 1000) False) None]"
    by (simp add: v new_testing_request_def)
  from C3_creation_branches[OF ok l1[of REJECTED], where p = ex_role_reaction and g = 9] h1
  have b: "requests (snd (request_access ex_config ex_role_reaction ex_member 9 [5] (ex_world REJECTED)))
       = [ex_request REJECTED]
   \<and> trace (snd (request_access ex_config ex_role_reaction ex_member 9 [5] (ex_world REJECTED))) = []"
    by (simp add: v)
  from C3_creation_branches[OF ok l1[of PENDING], where p = ex_role_reaction and g = 9
      and ?r0.0 = "ex_request PENDING" and rest = "[]"
      and ?t0.0 = "ex_tester (Some ''t@example.org'')" and ch = 3] h2
  have c: "length (requests (snd (request_access ex_config ex_role_reaction ex_member 9 [5]
                               (ex_world PENDING)))) = 1
   \<and> trace (snd (request_access ex_config ex_role_reaction ex_member 9 [5] (ex_world PENDING)))
       = [ChannelSend 3 (RequestNotification (Some 30) True) None]"
    by (simp add: v)
  have l2: "[ex_request PENDING] = filter (request_matches (mem_id ex_member) (Some [5]) FilterAll True)
                   (requests ex_world_prompted)"
    by (simp add: ex_world_prompted_def ex_defs request_matches_def)
  have h3: "[ex_request PENDING] = ex_request PENDING # []
      \<and> (\<forall>r \<in> set [ex_request PENDING]. status r \<noteq> REJECTED)"
    by (simp add: ex_request_def)
  have l3: "[] = filter (request_matches (mem_id ex_member) (Some [5]) FilterAll True)
                   (requests ex_world_empty)"
    by (simp add: ex_world_empty_def ex_defs)
  have h4: "find_tester_in (testers ex_world_empty) (mem_id ex_member) = None"
    by (simp add: ex_world_empty_def ex_defs)
  have v': "length (requests ex_world_prompted) = 1" "trace ex_world_empty = []" "mem_id ex_member = 7"
    by (simp_all add: ex_world_prompted_def ex_world_empty_def ex_defs)
  from C3_creation_branches[OF ok l2, where p = ex_role_reaction and g = 9
      and ?r0.0 = "ex_request PENDING" and rest = "[]"] h3
  have d: "length (requests (snd (request_access ex_config ex_role_reaction ex_member 9 [5]
                               ex_world_prompted))) = 1"
    by (simp add: v')
  from C3_creation_branches[OF ok l3, where p = ex_role_reaction and g = 9] h4
  have e: "at_most_prompt 7 [] (trace (snd (request_access ex_config ex_role_reaction ex_member 9 [5]
                                       ex_world_empty)))"
    by (simp add: v')
  from path a b c d e show ?thesis by simp
qed

text \<open>
  C3 as stated fails here: member 7, not yet known as a tester and so without an
  email on file, reacts for app 5 with no request stored. The PENDING request is created,
  the registration prompt goes to the member, and no notification is sent.
\<close>

theorem C3_counterexample:
  "fst (handle_role_reaction ex_config ex_role_reaction ex_world_empty) = Inr ()
   \<and> map status (requests (snd (handle_role_reaction ex_config ex_role_reaction ex_world_empty)))
       = [PENDING]
   \<and> trace (snd (handle_role_reaction ex_config ex_role_reaction ex_world_empty))
       = [MemberSend 7 RegistrationPrompt]"
  by code_simp

section \<open>Registration gate\<close>

lemma find_tester_in_replace:
  "find_tester_in ts (discord_id t) = Some old \<Longrightarrow>
   find_tester_in (replace_tester ts t) (discord_id t) = Some t"
  by (induction ts) (auto split: if_splits)

lemma find_tester_in_append:
  "find_tester_in ts d = None \<Longrightarrow> discord_id t = d \<Longrightarrow> find_tester_in (ts @ [t]) d = Some t"
  by (induction ts) (auto split: if_splits)

lemma find_message_fresh:
  "\<forall>x \<in> set ms. m_id x < n \<Longrightarrow> n \<le> m_id pm \<Longrightarrow> find_message (ms @ [pm]) (m_id pm) = Some pm"
  by (induction ms) auto

lemma gate_silent:
  assumes "no_email t" and "registration_message_id t = Some rid"
    and "find_message (remote w) rid = Some prev" and "m_created_at prev > clock w - 1800"
  shows "registration_gate c m t rest w = (Inr (), w)"
  using assms
  by (simp add: registration_gate_def fetch_message_def bind_def ret_def Let_def)

lemma gate_sends:
  assumes ok: "\<not> airtable_fails c OpUpsertTester" and ne: "no_email t"
    and known: "find_tester_in (testers w) (discord_id t) = Some old"
    and due: "registration_message_id t = None
       \<or> (registration_message_id t = Some rid \<and> find_message (remote w) rid = Some prev
           \<and> m_created_at prev \<le> clock w - 1800)"
  shows "registration_gate c m t rest w
     = (Inr (), w\<lparr>remote := remote w @ [new_message c (mem_id m) w], next_id := Suc (next_id w),
                  trace := trace w @ [MemberSend (mem_id m) RegistrationPrompt],
                  testers := replace_tester (testers w)
                     (t\<lparr>registration_message_id := Some (next_id w), t_id := t_id old\<rparr>)\<rparr>)"
  using assms
  by (auto simp: registration_gate_def fetch_message_def bind_def ret_def Let_def
      send_registration_message_def member_send_def upsert_tester_def airtable_def new_message_def)

lemma second_reaction_silent:
  assumes ok: "\<forall>op. \<not> airtable_fails c op"
    and found: "find_tester_in (testers w) (mem_id m) = Some t1"
    and ne: "no_email t1" and reg: "registration_message_id t1 = Some pid"
    and msg: "find_message (remote w) pid = Some pm" and recent: "m_created_at pm > clock w - 1800"
    and listing: "filter (request_matches (mem_id m) (Some aids) FilterAll True) (requests w) = r0 # rest"
  shows "request_access c p m g aids w
     = (Inr (), w\<lparr>testers := replace_tester (testers w)
                       (t1\<lparr>username := mem_name m, discord_id := mem_id m\<rparr>)\<rparr>)"
proof -
  define tstr where "tstr = t1\<lparr>username := mem_name m, discord_id := mem_id m\<rparr>"
  have a: "no_email tstr" "registration_message_id tstr = Some pid"
    using ne reg by (simp_all add: tstr_def no_email_def)
  show ?thesis
    using listing msg recent
    by (auto simp: request_access_with_tester[OF ok found] Let_def tstr_def[symmetric] ret_def
        gate_silent[OF a])
qed


lemma gate_sends_facts:
  assumes ok: "\<not> airtable_fails c OpUpsertTester" and ne: "no_email t"
    and known: "find_tester_in (testers w) (discord_id t) = Some old"
    and due: "registration_message_id t = None
       \<or> (registration_message_id t = Some rid \<and> find_message (remote w) rid = Some prev
           \<and> m_created_at prev \<le> clock w - 1800)"
    and fresh: "\<forall>x \<in> set (remote w). m_id x < next_id w"
  shows "\<exists>w1 t1 pm. registration_gate c m t rest w = (Inr (), w1)
           \<and> trace w1 = trace w @ [MemberSend (mem_id m) RegistrationPrompt]
           \<and> clock w1 = clock w \<and> requests w1 = requests w
           \<and> find_tester_in (testers w1) (discord_id t) = Some t1
           \<and> no_email t1 \<and> registration_message_id t1 = Some (m_id pm)
           \<and> find_message (remote w1) (m_id pm) = Some pm \<and> m_created_at pm = clock w
           \<and> next_id w \<le> m_id pm"
proof -
  define t1 where "t1 = t\<lparr>registration_message_id := Some (next_id w), t_id := t_id old\<rparr>"
  define pm where "pm = new_message c (mem_id m) w"
  have d: "discord_id t1 = discord_id t" by (simp add: t1_def)
  have "find_tester_in (replace_tester (testers w) t1) (discord_id t1) = Some t1"
    using known by (intro find_tester_in_replace) (simp add: d)
  moreover have "find_message (remote w @ [pm]) (m_id pm) = Some pm"
    using fresh by (intro find_message_fresh[where n = "next_id w"]) (simp_all add: pm_def new_message_def)
  moreover have "no_email t1" using ne by (simp add: t1_def no_email_def)
  moreover have "m_id pm = next_id w" "m_created_at pm = clock w"
    "registration_message_id t1 = Some (next_id w)"
    by (simp_all add: pm_def new_message_def t1_def)
  moreover have "registration_gate c m t rest w
     = (Inr (), w\<lparr>remote := remote w @ [pm], next_id := Suc (next_id w),
                  trace := trace w @ [MemberSend (mem_id m) RegistrationPrompt],
                  testers := replace_tester (testers w) t1\<rparr>)"
    by (simp add: gate_sends[OF ok ne known due] t1_def pm_def)
  ultimately show ?thesis
    by (intro exI[of _ "w\<lparr>remote := remote w @ [pm], next_id := Suc (next_id w),
                  trace := trace w @ [MemberSend (mem_id m) RegistrationPrompt],
                  testers := replace_tester (testers w) t1\<rparr>"] exI[of _ t1] exI[of _ pm])
      (simp add: d)
qed


text \<open>The tester as \<^verbatim>\<open>request_access\<close> upserts it, and the state the gate is reached in.\<close>

lemma first_reaction_reaches_gate:
  assumes ok: "\<forall>op. \<not> airtable_fails c op"
    and aids: "aids = a # as"
    and nr: "\<forall>r \<in> set (filter (request_matches (mem_id m) (Some aids) FilterAll True) (requests w)).
               status r \<noteq> REJECTED"
    and tester: "find_tester_in (testers w) (mem_id m) = None
       \<or> (find_tester_in (testers w) (mem_id m) = Some t0 \<and> no_email t0
           \<and> registration_message_id t0 = reg)"
  shows "\<exists>tstr wx old rest. request_access c p m g aids w = registration_gate c m tstr rest wx
           \<and> no_email tstr \<and> discord_id tstr = mem_id m
           \<and> registration_message_id tstr
               = (if find_tester_in (testers w) (mem_id m) = None then None else reg)
           \<and> find_tester_in (testers wx) (mem_id m) = Some old
           \<and> trace wx = trace w \<and> clock wx = clock w \<and> remote wx = remote w
           \<and> next_id w \<le> next_id wx
           \<and> filter (request_matches (mem_id m) (Some aids) FilterAll True) (requests wx) \<noteq> []
           \<and> (\<forall>r \<in> set (filter (request_matches (mem_id m) (Some aids) FilterAll True) (requests wx)).
                 status r \<noteq> REJECTED)"
proof (cases "find_tester_in (testers w) (mem_id m)")
  case None
  define tstr where "tstr = \<lparr>t_id = Some (next_id w), username = mem_name m, discord_id = mem_id m,
                   email = None, registration_message_id = None, leave_message_ids = []\<rparr>"
  define wu where "wu = w\<lparr>testers := testers w @ [tstr], next_id := Suc (next_id w)\<rparr>"
  have t: "no_email tstr" "discord_id tstr = mem_id m" "registration_message_id tstr = None"
    by (simp_all add: tstr_def no_email_def)
  have k: "find_tester_in (testers w @ [tstr]) (mem_id m) = Some tstr"
    using None by (intro find_tester_in_append) (simp_all add: tstr_def)
  show ?thesis
  proof (cases "filter (request_matches (mem_id m) (Some aids) FilterAll True) (requests w)")
    case Nil
    define r where "r = (new_testing_request (t_id tstr) (mem_id m) a g)\<lparr>r_id := Some (next_id wu)\<rparr>"
    define wa where "wa = wu\<lparr>requests := requests w @ [r], next_id := Suc (next_id wu)\<rparr>"
    have step: "request_access c p m g aids w
        = registration_gate c m tstr (send_request_notification_message c m tstr r) wa"
      using ok Nil aids
      by (simp add: request_access_new_tester[OF ok None] Let_def tstr_def[symmetric] add_request_def
          airtable_def bind_def r_def wa_def wu_def)
    have m: "request_matches (mem_id m) (Some aids) FilterAll True r"
      using aids by (simp add: request_matches_def r_def new_testing_request_def)
    show ?thesis
      using step t k None Nil m
      by (intro exI[of _ tstr] exI[of _ wa] exI[of _ tstr]
          exI[of _ "send_request_notification_message c m tstr r"])
        (simp add: wa_def wu_def r_def new_testing_request_def)
  next
    case (Cons r0 rest)
    have step: "request_access c p m g aids w
        = registration_gate c m tstr (send_request_notification_message c m tstr r0) wu"
      using ok Cons nr
      by (simp add: request_access_new_tester[OF ok None] Let_def tstr_def[symmetric] wu_def)
    show ?thesis
      using step t k None Cons nr
      by (intro exI[of _ tstr] exI[of _ wu] exI[of _ tstr]
          exI[of _ "send_request_notification_message c m tstr r0"])
        (simp add: wu_def)
  qed
next
  case (Some t0')
  with tester have t0: "t0' = t0" "no_email t0" "registration_message_id t0 = reg"
    by simp_all
  define tstr where "tstr = t0\<lparr>username := mem_name m, discord_id := mem_id m\<rparr>"
  define wu where "wu = w\<lparr>testers := replace_tester (testers w) tstr\<rparr>"
  have t: "no_email tstr" "discord_id tstr = mem_id m" "registration_message_id tstr = reg"
    using t0 by (simp_all add: tstr_def no_email_def)
  have k: "find_tester_in (replace_tester (testers w) tstr) (mem_id m) = Some tstr"
    using Some find_tester_in_replace[of "testers w" tstr t0'] by (simp add: t)
  have found: "find_tester_in (testers w) (mem_id m) = Some t0"
    using Some t0 by simp
  show ?thesis
  proof (cases "filter (request_matches (mem_id m) (Some aids) FilterAll True) (requests w)")
    case Nil
    define r where "r = (new_testing_request (t_id tstr) (mem_id m) a g)\<lparr>r_id := Some (next_id wu)\<rparr>"
    define wa where "wa = wu\<lparr>requests := requests w @ [r], next_id := Suc (next_id wu)\<rparr>"
    have step: "request_access c p m g aids w
        = registration_gate c m tstr (send_request_notification_message c m tstr r) wa"
      using ok Nil aids
      by (simp add: request_access_with_tester[OF ok found] Let_def tstr_def[symmetric] add_request_def
          airtable_def bind_def r_def wa_def wu_def)
    have m: "request_matches (mem_id m) (Some aids) FilterAll True r"
      using aids by (simp add: request_matches_def r_def new_testing_request_def)
    show ?thesis
      using step t k found Nil m
      by (intro exI[of _ tstr] exI[of _ wa] exI[of _ tstr]
          exI[of _ "send_request_notification_message c m tstr r"])
        (simp add: wa_def wu_def r_def new_testing_request_def)
  next
    case (Cons r0 rest)
    have step: "request_access c p m g aids w
        = registration_gate c m tstr (send_request_notification_message c m tstr r0) wu"
      using ok Cons nr
      by (simp add: request_access_with_tester[OF ok found] Let_def tstr_def[symmetric] wu_def)
    show ?thesis
      using step t k found Cons nr
      by (intro exI[of _ tstr] exI[of _ wu] exI[of _ tstr]
          exI[of _ "send_request_notification_message c m tstr r0"])
        (simp add: wu_def)
  qed
qed


lemma first_reaction_prompts:
  assumes ok: "\<forall>op. \<not> airtable_fails c op"
    and aids: "aids = a # as"
    and nr: "\<forall>r \<in> set (filter (request_matches (mem_id m) (Some aids) FilterAll True) (requests w)).
               status r \<noteq> REJECTED"
    and fresh: "\<forall>x \<in> set (remote w). m_id x < next_id w"
    and due: "find_tester_in (testers w) (mem_id m) = None
       \<or> (find_tester_in (testers w) (mem_id m) = Some t0 \<and> no_email t0
           \<and> (registration_message_id t0 = None
               \<or> (registration_message_id t0 = Some rid \<and> find_message (remote w) rid = Some prev
                   \<and> m_created_at prev \<le> clock w - 1800)))"
  shows "\<exists>w1 t1 pm r0 rest. request_access c p m g aids w = (Inr (), w1)
           \<and> trace w1 = trace w @ [MemberSend (mem_id m) RegistrationPrompt]
           \<and> clock w1 = clock w
           \<and> find_tester_in (testers w1) (mem_id m) = Some t1
           \<and> no_email t1 \<and> registration_message_id t1 = Some (m_id pm)
           \<and> find_message (remote w1) (m_id pm) = Some pm \<and> m_created_at pm = clock w
           \<and> next_id w \<le> m_id pm
           \<and> filter (request_matches (mem_id m) (Some aids) FilterAll True) (requests w1) = r0 # rest"
proof -
  from due have tester: "find_tester_in (testers w) (mem_id m) = None
       \<or> (find_tester_in (testers w) (mem_id m) = Some t0 \<and> no_email t0
           \<and> registration_message_id t0 = registration_message_id t0)"
    by auto
  from first_reaction_reaches_gate[OF ok aids nr tester, of p g]
  obtain tstr wx old rest where g: "request_access c p m g aids w = registration_gate c m tstr rest wx"
    and t: "no_email tstr" "discord_id tstr = mem_id m"
    and reg: "registration_message_id tstr
               = (if find_tester_in (testers w) (mem_id m) = None then None
                  else registration_message_id t0)"
    and k: "find_tester_in (testers wx) (mem_id m) = Some old"
    and same: "trace wx = trace w" "clock wx = clock w" "remote wx = remote w"
    and n: "next_id w \<le> next_id wx"
    and l: "filter (request_matches (mem_id m) (Some aids) FilterAll True) (requests wx) \<noteq> []"
    by blast
  have due': "registration_message_id tstr = None
       \<or> (registration_message_id tstr = Some rid \<and> find_message (remote wx) rid = Some prev
           \<and> m_created_at prev \<le> clock wx - 1800)"
    using due reg same by auto
  have fresh': "\<forall>x \<in> set (remote wx). m_id x < next_id wx"
    using fresh n same by auto
  have ok': "\<not> airtable_fails c OpUpsertTester" using ok by simp
  have k': "find_tester_in (testers wx) (discord_id tstr) = Some old" using k t by simp
  from gate_sends_facts[OF ok' t(1) k' due' fresh', of m rest]
  obtain w1 t1 pm where r: "registration_gate c m tstr rest wx = (Inr (), w1)"
    and f: "trace w1 = trace wx @ [MemberSend (mem_id m) RegistrationPrompt]"
      "clock w1 = clock wx" "requests w1 = requests wx"
      "find_tester_in (testers w1) (discord_id tstr) = Some t1"
      "no_email t1" "registration_message_id t1 = Some (m_id pm)"
      "find_message (remote w1) (m_id pm) = Some pm" "m_created_at pm = clock wx"
      "next_id wx \<le> m_id pm"
    by blast
  from l obtain r0 rs where l': "filter (request_matches (mem_id m) (Some aids) FilterAll True) (requests wx) = r0 # rs"
    by (cases "filter (request_matches (mem_id m) (Some aids) FilterAll True) (requests wx)") auto
  show ?thesis
    using g r f t same n l'
    by (intro exI[of _ w1] exI[of _ t1] exI[of _ pm] exI[of _ r0] exI[of _ rs]) simp
qed


text \<open>
  C7. The handler has reached the registration gate: the store answers and no listed
  request is REJECTED. For a tester without an email on file whose recorded prompt is
  less than 30 minutes (1800 seconds) old, it returns having sent nothing. Otherwise
  (no tester record yet, no prompt recorded, or a prompt at least 30 minutes old) it sends
  exactly one registration prompt and nothing to any channel, and the tester's record
  then points to that prompt; a further reaction at any time less than 30 minutes after
  the first one sends nothing more.
\<close>

theorem C7_registration_prompt:
  assumes ok: "\<forall>op. \<not> airtable_fails c op"
    and aids: "aids = a # as"
    and nr: "\<forall>r \<in> set (filter (request_matches (mem_id m) (Some aids) FilterAll True) (requests w)).
               status r \<noteq> REJECTED"
  shows "(find_tester_in (testers w) (mem_id m) = Some t0 \<and> no_email t0
            \<and> registration_message_id t0 = Some rid \<and> find_message (remote w) rid = Some prev
            \<and> m_created_at prev > clock w - 1800 \<longrightarrow>
          fst (request_access c p m g aids w) = Inr ()
          \<and> trace (snd (request_access c p m g aids w)) = trace w
          \<and> remote (snd (request_access c p m g aids w)) = remote w)
       \<and> ((\<forall>x \<in> set (remote w). m_id x < next_id w)
            \<and> (find_tester_in (testers w) (mem_id m) = None
                \<or> (find_tester_in (testers w) (mem_id m) = Some t0 \<and> no_email t0
                    \<and> (registration_message_id t0 = None
                        \<or> (registration_message_id t0 = Some rid
                            \<and> find_message (remote w) rid = Some prev
                            \<and> m_created_at prev \<le> clock w - 1800)))) \<longrightarrow>
          fst (request_access c p m g aids w) = Inr ()
          \<and> trace (snd (request_access c p m g aids w))
              = trace w @ [MemberSend (mem_id m) RegistrationPrompt]
          \<and> (case registered_prompt (snd (request_access c p m g aids w)) (mem_id m) of
                None \<Rightarrow> False
              | Some pm \<Rightarrow> m_created_at pm = clock w \<and> next_id w \<le> m_id pm)
          \<and> (\<forall>t2. t2 < clock w + 1800 \<longrightarrow>
                fst (request_access c p' m g aids ((snd (request_access c p m g aids w))\<lparr>clock := t2\<rparr>))
                  = Inr ()
                \<and> trace (snd (request_access c p' m g aids
                                ((snd (request_access c p m g aids w))\<lparr>clock := t2\<rparr>)))
                    = trace w @ [MemberSend (mem_id m) RegistrationPrompt]))"
proof (intro conjI impI)
  assume h: "find_tester_in (testers w) (mem_id m) = Some t0 \<and> no_email t0
            \<and> registration_message_id t0 = Some rid \<and> find_message (remote w) rid = Some prev
            \<and> m_created_at prev > clock w - 1800"
  then have tester: "find_tester_in (testers w) (mem_id m) = None
       \<or> (find_tester_in (testers w) (mem_id m) = Some t0 \<and> no_email t0
           \<and> registration_message_id t0 = Some rid)"
    by simp
  from first_reaction_reaches_gate[OF ok aids nr tester, of p g]
  obtain tstr wx rest where g: "request_access c p m g aids w = registration_gate c m tstr rest wx"
    and t: "no_email tstr"
    and reg: "registration_message_id tstr
               = (if find_tester_in (testers w) (mem_id m) = None then None else Some rid)"
    and same: "trace wx = trace w" "clock wx = clock w" "remote wx = remote w"
    by blast
  have "registration_gate c m tstr rest wx = (Inr (), wx)"
    using h reg same by (intro gate_silent[OF t, of rid _ prev]) simp_all
  with g same show "fst (request_access c p m g aids w) = Inr ()"
    and "trace (snd (request_access c p m g aids w)) = trace w"
    and "remote (snd (request_access c p m g aids w)) = remote w"
    by simp_all
next
  assume h: "(\<forall>x \<in> set (remote w). m_id x < next_id w)
            \<and> (find_tester_in (testers w) (mem_id m) = None
                \<or> (find_tester_in (testers w) (mem_id m) = Some t0 \<and> no_email t0
                    \<and> (registration_message_id t0 = None
                        \<or> (registration_message_id t0 = Some rid
                            \<and> find_message (remote w) rid = Some prev
                            \<and> m_created_at prev \<le> clock w - 1800))))"
  then have fresh: "\<forall>x \<in> set (remote w). m_id x < next_id w"
    and due: "find_tester_in (testers w) (mem_id m) = None
                \<or> (find_tester_in (testers w) (mem_id m) = Some t0 \<and> no_email t0
                    \<and> (registration_message_id t0 = None
                        \<or> (registration_message_id t0 = Some rid
                            \<and> find_message (remote w) rid = Some prev
                            \<and> m_created_at prev \<le> clock w - 1800)))"
    by simp_all
  from first_reaction_prompts[OF ok aids nr fresh due, of p g]
  obtain w1 t1 pm r0 rest where r: "request_access c p m g aids w = (Inr (), w1)"
    and tr: "trace w1 = trace w @ [MemberSend (mem_id m) RegistrationPrompt]"
    and cl: "clock w1 = clock w"
    and k: "find_tester_in (testers w1) (mem_id m) = Some t1"
    and t1: "no_email t1" "registration_message_id t1 = Some (m_id pm)"
    and pm: "find_message (remote w1) (m_id pm) = Some pm" "m_created_at pm = clock w"
      "next_id w \<le> m_id pm"
    and l: "filter (request_matches (mem_id m) (Some aids) FilterAll True) (requests w1) = r0 # rest"
    by blast
  show "fst (request_access c p m g aids w) = Inr ()"
    by (simp add: r)
  show "trace (snd (request_access c p m g aids w))
              = trace w @ [MemberSend (mem_id m) RegistrationPrompt]"
    by (simp add: r tr)
  show "case registered_prompt (snd (request_access c p m g aids w)) (mem_id m) of
                None \<Rightarrow> False
              | Some pm \<Rightarrow> m_created_at pm = clock w \<and> next_id w \<le> m_id pm"
    by (simp add: r registered_prompt_def k t1 pm)
  show "\<forall>t2. t2 < clock w + 1800 \<longrightarrow>
                fst (request_access c p' m g aids ((snd (request_access c p m g aids w))\<lparr>clock := t2\<rparr>))
                  = Inr ()
                \<and> trace (snd (request_access c p' m g aids
                                ((snd (request_access c p m g aids w))\<lparr>clock := t2\<rparr>)))
                    = trace w @ [MemberSend (mem_id m) RegistrationPrompt]"
  proof (intro allI impI)
    fix t2 :: int
    assume "t2 < clock w + 1800"
    then have recent: "m_created_at pm > clock (w1\<lparr>clock := t2\<rparr>) - 1800"
      using pm by simp
    from second_reaction_silent[OF ok, where w = "w1\<lparr>clock := t2\<rparr>" and m = m and ?t1.0 = t1
        and pid = "m_id pm" and pm = pm and aids = aids and ?r0.0 = r0 and rest = rest and p = p'
        and g = g] k t1 pm recent l
    show "fst (request_access c p' m g aids ((snd (request_access c p m g aids w))\<lparr>clock := t2\<rparr>))
                  = Inr ()
                \<and> trace (snd (request_access c p' m g aids
                                ((snd (request_access c p m g aids w))\<lparr>clock := t2\<rparr>)))
                    = trace w @ [MemberSend (mem_id m) RegistrationPrompt]"
      by (simp add: r tr)
  qed
qed

theorem C7_witness:
  "fst (request_access ex_config ex_role_reaction ex_member 9 [5] ex_world_prompted) = Inr ()
   \<and> trace (snd (request_access ex_config ex_role_reaction ex_member 9 [5] ex_world_prompted)) = []
   \<and> fst (request_access ex_config ex_role_reaction ex_member 9 [5] ex_world_empty) = Inr ()
   \<and> trace (snd (request_access ex_config ex_role_reaction ex_member 9 [5] ex_world_empty))
       = [MemberSend 7 RegistrationPrompt]
   \<and> trace (snd (request_access ex_config ex_role_reaction ex_member 9 [5]
                   ((snd (request_access ex_config ex_role_reaction ex_member 9 [5] ex_world_empty))
                      \<lparr>clock := 6799\<rparr>)))
       = [MemberSend 7 RegistrationPrompt]"
proof -
  have ok: "\<forall>op. \<not> airtable_fails ex_config op"
    by (simp add: ex_config_def)
  have aids: "[5] = (5::nat) # []"
    by simp
  have nr1: "\<forall>r \<in> set (filter (request_matches (mem_id ex_member) (Some [5]) FilterAll True)
                           (requests ex_world_prompted)). status r \<noteq> REJECTED"
    by (simp add: ex_world_prompted_def ex_defs request_matches_def)
  have nr2: "\<forall>r \<in> set (filter (request_matches (mem_id ex_member) (Some [5]) FilterAll True)
                           (requests ex_world_empty)). status r \<noteq> REJECTED"
    by (simp add: ex_world_empty_def ex_defs)
  have a: "find_tester_in (testers ex_world_prompted) (mem_id ex_member)
             = Some ((ex_tester None)\<lparr>registration_message_id := Some 102\<rparr>)
      \<and> no_email ((ex_tester None)\<lparr>registration_message_id := Some 102\<rparr>)
      \<and> registration_message_id ((ex_tester None)\<lparr>registration_message_id := Some 102\<rparr>) = Some 102
      \<and> find_message (remote ex_world_prompted) 102 = Some ex_prompt
      \<and> m_created_at ex_prompt > clock ex_world_prompted - 1800"
    by (simp add: ex_world_prompted_def ex_defs ex_prompt_def no_email_def)
  have b: "(\<forall>x \<in> set (remote ex_world_empty). m_id x < next_id ex_world_empty)
      \<and> find_tester_in (testers ex_world_empty) (mem_id ex_member) = None"
    by (simp add: ex_world_empty_def ex_defs)
  have c: "trace ex_world_prompted = []" "trace ex_world_empty = []" "clock ex_world_empty = 5000"
    "mem_id ex_member = 7"
    by (simp_all add: ex_world_prompted_def ex_world_empty_def ex_defs)
  from C7_registration_prompt[OF ok aids nr1, where p = ex_role_reaction and g = 9
      and ?t0.0 = "(ex_tester None)\<lparr>registration_message_id := Some 102\<rparr>" and rid = 102
      and prev = ex_prompt] a
  have p1: "fst (request_access ex_config ex_role_reaction ex_member 9 [5] ex_world_prompted) = Inr ()
   \<and> trace (snd (request_access ex_config ex_role_reaction ex_member 9 [5] ex_world_prompted)) = []"
    by (simp add: c)
  from C7_registration_prompt[OF ok aids nr2, where p = ex_role_reaction and p' = ex_role_reaction
      and g = 9] b
  have p2: "fst (request_access ex_config ex_role_reaction ex_member 9 [5] ex_world_empty) = Inr ()
   \<and> trace (snd (request_access ex_config ex_role_reaction ex_member 9 [5] ex_world_empty))
       = [MemberSend 7 RegistrationPrompt]
   \<and> trace (snd (request_access ex_config ex_role_reaction ex_member 9 [5]
                   ((snd (request_access ex_config ex_role_reaction ex_member 9 [5] ex_world_empty))
                      \<lparr>clock := 6799\<rparr>)))
       = [MemberSend 7 RegistrationPrompt]"
    by (simp add: c)
  from p1 p2 show ?thesis by simp
qed

section \<open>Member-leave notification\<close>

lemma fetch_apps_world: "fetch_apps c is w = (r, w') \<Longrightarrow> w' = w"
  by (induction "is" arbitrary: r)
    (auto simp: fetch_app_def io_defs split: if_splits sum.splits prod.splits)

lemma fetch_apps_ok:
  "\<not> airtable_fails c OpFetchApp \<Longrightarrow>
   fetch_apps c is w = (Inr (map (\<lambda>i. find (\<lambda>a. app_id a = i) (apps c)) is), w)"
  by (induction "is") (simp_all add: fetch_app_def io_defs)

lemma fetch_apps_for_tester_world: "fetch_apps_for_tester c u f w = (r, w') \<Longrightarrow> w' = w"
  by (auto simp: fetch_apps_for_tester_def list_requests_def io_defs
      split: if_splits sum.splits prod.splits dest: fetch_apps_world)

lemma fetch_apps_length: "fetch_apps c is w = (Inr xs, w') \<Longrightarrow> length xs = length is"
  by (induction "is" arbitrary: xs)
    (auto simp: fetch_app_def io_defs split: if_splits sum.splits prod.splits)

lemma fetch_apps_for_tester_Inr:
  "fetch_apps_for_tester c u f w = (Inr fetched, w') \<Longrightarrow>
   length fetched = length (filter (request_matches u None f True) (requests w))"
  by (auto simp: fetch_apps_for_tester_def list_requests_def io_defs
      split: if_splits sum.splits prod.splits dest: fetch_apps_length)

lemma posted_only_if:
  assumes "trace (snd (on_raw_member_remove c u g w)) \<noteq> trace w"
  shows "(\<exists>ch. tester_exit_notification_channel c g = Some ch \<and> get_channel c ch = Some ch)
       \<and> (\<exists>r \<in> set (requests w). tester_discord_id r = u \<and> status r = APPROVED \<and> \<not> removed r)"
proof -
  obtain fr w1 where f: "fetch_apps_for_tester c u FilterApproved w = (fr, w1)"
    by (cases "fetch_apps_for_tester c u FilterApproved w") auto
  then have w1: "w1 = w" by (rule fetch_apps_for_tester_world)
  from assms f w1 obtain ch fetched where c: "tester_exit_notification_channel c g = Some ch"
    and fr: "fr = Inr fetched" and ne: "fetched \<noteq> []" and gc: "get_channel c ch \<noteq> None"
    by (auto simp: on_raw_member_remove_def io_defs split: option.splits if_splits sum.splits)
  from fetch_apps_for_tester_Inr[OF f[unfolded fr]] ne
  have "filter (request_matches u None FilterApproved True) (requests w) \<noteq> []"
    by auto
  then obtain r where "r \<in> set (requests w)" "request_matches u None FilterApproved True r"
    by (metis filter_False)
  then have "\<exists>r \<in> set (requests w). tester_discord_id r = u \<and> status r = APPROVED \<and> \<not> removed r"
    by (auto simp: request_matches_def)
  moreover from gc have "get_channel c ch = Some ch"
    by (rule get_channel_Some)
  ultimately show ?thesis
    using c by simp
qed


text \<open>
  C10. With the configuration, request and tester lookups answering and a tester record
  on file for the leaving user: anything is posted only if the guild has an
  exit-notification channel, that channel resolves, and the user has an approved,
  non-removed request. When these hold and the apps of those requests are found, the
  notification is posted, its message id is appended to the tester's leave-message ids
  and the record is stored; when storing fails, the failure is reported to the same
  channel and the handler still returns normally.
\<close>

theorem C10_member_leaves:
  assumes ok: "\<not> airtable_fails c OpGetConfig" "\<not> airtable_fails c OpListRequests"
      "\<not> airtable_fails c OpFetchApp" "\<not> airtable_fails c OpFindTester"
    and known: "find_tester_in (testers w) u = Some t"
  shows "(trace (snd (on_raw_member_remove c u g w)) \<noteq> trace w \<longrightarrow>
            (\<exists>ch. tester_exit_notification_channel c g = Some ch \<and> get_channel c ch = Some ch)
          \<and> (\<exists>r \<in> set (requests w). tester_discord_id r = u \<and> status r = APPROVED \<and> \<not> removed r))
       \<and> (tester_exit_notification_channel c g = Some ch \<and> get_channel c ch = Some ch
            \<and> filter (request_matches u None FilterApproved True) (requests w) \<noteq> []
            \<and> (\<forall>r \<in> set (filter (request_matches u None FilterApproved True) (requests w)).
                  find (\<lambda>a. app_id a = app r) (apps c) \<noteq> None)
            \<and> \<not> airtable_fails c OpUpsertTester \<longrightarrow>
          fst (on_raw_member_remove c u g w) = Inr ()
          \<and> trace (snd (on_raw_member_remove c u g w)) = trace w @ [ChannelSend ch (TesterLeft u) None]
          \<and> remote (snd (on_raw_member_remove c u g w)) = remote w @ [new_message c ch w]
          \<and> find_tester_in (testers (snd (on_raw_member_remove c u g w))) u
              = Some (t\<lparr>leave_message_ids := leave_message_ids t @ [next_id w]\<rparr>))
       \<and> (tester_exit_notification_channel c g = Some ch \<and> get_channel c ch = Some ch
            \<and> filter (request_matches u None FilterApproved True) (requests w) \<noteq> []
            \<and> (\<forall>r \<in> set (filter (request_matches u None FilterApproved True) (requests w)).
                  find (\<lambda>a. app_id a = app r) (apps c) \<noteq> None)
            \<and> airtable_fails c OpUpsertTester \<longrightarrow>
          fst (on_raw_member_remove c u g w) = Inr ()
          \<and> trace (snd (on_raw_member_remove c u g w))
              = trace w @ [ChannelSend ch (TesterLeft u) None, ChannelSend ch FailedToUpdateTester None]
          \<and> testers (snd (on_raw_member_remove c u g w)) = testers w)"
proof (intro conjI impI)
  assume "trace (snd (on_raw_member_remove c u g w)) \<noteq> trace w"
  from posted_only_if[OF this]
  show "\<exists>ch. tester_exit_notification_channel c g = Some ch \<and> get_channel c ch = Some ch"
    and "\<exists>r \<in> set (requests w). tester_discord_id r = u \<and> status r = APPROVED \<and> \<not> removed r"
    by simp_all
next
  assume h: "tester_exit_notification_channel c g = Some ch \<and> get_channel c ch = Some ch
            \<and> filter (request_matches u None FilterApproved True) (requests w) \<noteq> []
            \<and> (\<forall>r \<in> set (filter (request_matches u None FilterApproved True) (requests w)).
                  find (\<lambda>a. app_id a = app r) (apps c) \<noteq> None)
            \<and> \<not> airtable_fails c OpUpsertTester"
  have d: "discord_id t = u" using known by (rule find_tester_in_id)
  define t' where "t' = t\<lparr>leave_message_ids := leave_message_ids t @ [next_id w]\<rparr>"
  have k: "find_tester_in (replace_tester (testers w) t') u = Some t'"
    using find_tester_in_replace[of "testers w" t' t] known d by (simp add: t'_def)
  have res: "on_raw_member_remove c u g w
      = (Inr (), w\<lparr>remote := remote w @ [new_message c ch w], next_id := Suc (next_id w),
                   trace := trace w @ [ChannelSend ch (TesterLeft u) None],
                   testers := replace_tester (testers w) t'\<rparr>)"
    using h ok known d
    by (auto simp: on_raw_member_remove_def fetch_apps_for_tester_def list_requests_def
        fetch_apps_ok find_tester_def upsert_tester_def channel_send_world io_defs Let_def t'_def
        new_message_def)
  show "fst (on_raw_member_remove c u g w) = Inr ()"
    and "trace (snd (on_raw_member_remove c u g w)) = trace w @ [ChannelSend ch (TesterLeft u) None]"
    and "remote (snd (on_raw_member_remove c u g w)) = remote w @ [new_message c ch w]"
    and "find_tester_in (testers (snd (on_raw_member_remove c u g w))) u
              = Some (t\<lparr>leave_message_ids := leave_message_ids t @ [next_id w]\<rparr>)"
    using k by (simp_all add: res t'_def)
next
  assume h: "tester_exit_notification_channel c g = Some ch \<and> get_channel c ch = Some ch
            \<and> filter (request_matches u None FilterApproved True) (requests w) \<noteq> []
            \<and> (\<forall>r \<in> set (filter (request_matches u None FilterApproved True) (requests w)).
                  find (\<lambda>a. app_id a = app r) (apps c) \<noteq> None)
            \<and> airtable_fails c OpUpsertTester"
  have res: "on_raw_member_remove c u g w
      = (Inr (), w\<lparr>remote := remote w @ [new_message c ch w,
                        new_message c ch (w\<lparr>next_id := Suc (next_id w)\<rparr>)],
                   next_id := Suc (Suc (next_id w)),
                   trace := trace w @ [ChannelSend ch (TesterLeft u) None,
                                       ChannelSend ch FailedToUpdateTester None]\<rparr>)"
    using h ok known
    by (auto simp: on_raw_member_remove_def fetch_apps_for_tester_def list_requests_def
        fetch_apps_ok find_tester_def upsert_tester_def channel_send_world io_defs Let_def
        new_message_def)
  show "fst (on_raw_member_remove c u g w) = Inr ()"
    and "trace (snd (on_raw_member_remove c u g w))
              = trace w @ [ChannelSend ch (TesterLeft u) None, ChannelSend ch FailedToUpdateTester None]"
    and "testers (snd (on_raw_member_remove c u g w)) = testers w"
    by (simp_all add: res)
qed


theorem C10_witness:
  "fst (on_raw_member_remove ex_config 7 9 (ex_world APPROVED)) = Inr ()
   \<and> trace (snd (on_raw_member_remove ex_config 7 9 (ex_world APPROVED)))
       = [ChannelSend 4 (TesterLeft 7) None]
   \<and> map_option leave_message_ids
        (find_tester_in (testers (snd (on_raw_member_remove ex_config 7 9 (ex_world APPROVED)))) 7)
       = Some [1000]
   \<and> (\<exists>r \<in> set (requests (ex_world APPROVED)).
         tester_discord_id r = 7 \<and> status r = APPROVED \<and> \<not> removed r)
   \<and> fst (on_raw_member_remove (ex_config_store_failing OpUpsertTester) 7 9 (ex_world APPROVED))
       = Inr ()
   \<and> trace (snd (on_raw_member_remove (ex_config_store_failing OpUpsertTester) 7 9
                   (ex_world APPROVED)))
       = [ChannelSend 4 (TesterLeft 7) None, ChannelSend 4 FailedToUpdateTester None]"
proof -
  have ok: "\<not> airtable_fails ex_config OpGetConfig" "\<not> airtable_fails ex_config OpListRequests"
      "\<not> airtable_fails ex_config OpFetchApp" "\<not> airtable_fails ex_config OpFindTester"
    by (simp_all add: ex_config_def)
  have ok': "\<not> airtable_fails (ex_config_store_failing OpUpsertTester) OpGetConfig"
      "\<not> airtable_fails (ex_config_store_failing OpUpsertTester) OpListRequests"
      "\<not> airtable_fails (ex_config_store_failing OpUpsertTester) OpFetchApp"
      "\<not> airtable_fails (ex_config_store_failing OpUpsertTester) OpFindTester"
    by (simp_all add: ex_config_store_failing_def ex_config_def)
  have known: "find_tester_in (testers (ex_world APPROVED)) 7 = Some (ex_tester (Some ''t@example.org''))"
    by (simp add: ex_defs)
  have h: "tester_exit_notification_channel ex_config 9 = Some 4 \<and> get_channel ex_config 4 = Some 4
      \<and> filter (request_matches 7 None FilterApproved True) (requests (ex_world APPROVED)) \<noteq> []
      \<and> (\<forall>r \<in> set (filter (request_matches 7 None FilterApproved True) (requests (ex_world APPROVED))).
            find (\<lambda>a. app_id a = app r) (apps ex_config) \<noteq> None)
      \<and> \<not> airtable_fails ex_config OpUpsertTester"
    by (simp add: ex_defs request_matches_def get_channel_def)
  have h': "tester_exit_notification_channel (ex_config_store_failing OpUpsertTester) 9 = Some 4
      \<and> get_channel (ex_config_store_failing OpUpsertTester) 4 = Some 4
      \<and> filter (request_matches 7 None FilterApproved True) (requests (ex_world APPROVED)) \<noteq> []
      \<and> (\<forall>r \<in> set (filter (request_matches 7 None FilterApproved True) (requests (ex_world APPROVED))).
            find (\<lambda>a. app_id a = app r) (apps (ex_config_store_failing OpUpsertTester)) \<noteq> None)
      \<and> airtable_fails (ex_config_store_failing OpUpsertTester) OpUpsertTester"
    by (simp add: ex_config_store_failing_def ex_defs request_matches_def get_channel_def)
  have v: "trace (ex_world APPROVED) = []" "next_id (ex_world APPROVED) = 1000"
    "leave_message_ids (ex_tester (Some ''t@example.org'')) = []"
    by (simp_all add: ex_defs)
  from C10_member_leaves[OF ok known, where g = 9 and ch = 4] h
  have a: "fst (on_raw_member_remove ex_config 7 9 (ex_world APPROVED)) = Inr ()
   \<and> trace (snd (on_raw_member_remove ex_config 7 9 (ex_world APPROVED)))
       = [ChannelSend 4 (TesterLeft 7) None]
   \<and> map_option leave_message_ids
        (find_tester_in (testers (snd (on_raw_member_remove ex_config 7 9 (ex_world APPROVED)))) 7)
       = Some [1000]"
    by (simp add: v)
  then have "trace (snd (on_raw_member_remove ex_config 7 9 (ex_world APPROVED)))
               \<noteq> trace (ex_world APPROVED)"
    by (simp add: v)
  with C10_member_leaves[OF ok known, where g = 9]
  have b: "\<exists>r \<in> set (requests (ex_world APPROVED)).
         tester_discord_id r = 7 \<and> status r = APPROVED \<and> \<not> removed r"
    by blast
  from C10_member_leaves[OF ok' known, where g = 9 and ch = 4] h'
  have c: "fst (on_raw_member_remove (ex_config_store_failing OpUpsertTester) 7 9 (ex_world APPROVED))
       = Inr ()
   \<and> trace (snd (on_raw_member_remove (ex_config_store_failing OpUpsertTester) 7 9
                   (ex_world APPROVED)))
       = [ChannelSend 4 (TesterLeft 7) None, ChannelSend 4 FailedToUpdateTester None]"
    by (simp add: v)
  from a b c show ?thesis by simp
qed

end
